theory Spec2Isabelle
  imports Main
begin

section \<open>Data model\<close>

text \<open>
  The program is \<^verbatim>\<open>playscore_to_musicxml.py\<close>: it opens a \<^verbatim>\<open>.playscore\<close> file (a ZIP
  archive), looks for a MusicXML or MIDI payload and writes MusicXML, for one input or for
  several inputs merged into one score.

  Byte strings, entry names and paths are lists of characters. A file system maps a path
  to a regular file with its bytes or to a directory; \<^verbatim>\<open>os.path.exists\<close> holds for both,
  \<^verbatim>\<open>os.path.isfile\<close> for the first only. Parent directories are not part of the map: whether
  a path can be opened for writing (its parent exists and is writable) is a fact of the
  environment, below.

  Every function of the source that touches the file system takes it as an argument and
  returns it with its result; a result is \<open>Inr\<close> of the value returned or \<open>Inl\<close> of the
  exception raised. The \<^verbatim>\<open>verbose\<close> flag only prints, so it is left out.

  A decoded Python string is the list of its code points.
\<close>

type_synonym bytes = string
type_synonym path = string
type_synonym unicode = "nat list"

datatype node = File bytes | Dir

type_synonym filesystem = "path \<rightharpoonup> node"

text \<open>
  The exceptions the code can meet. The handlers of the source tell apart only
  \<^verbatim>\<open>zipfile.BadZipFile\<close> and everything else (\<^verbatim>\<open>except Exception\<close>).
\<close>

datatype exn = BadZipFile | OSError | KeyError | ParseError | Music21Error

text \<open>
  A music21 object as the merge sees it: a \<^verbatim>\<open>Part\<close>, a \<^verbatim>\<open>Score\<close> holding its elements in
  order, or any other stream (an \<^verbatim>\<open>Opus\<close>, say). Only a \<^verbatim>\<open>Score\<close> has the attribute
  \<^verbatim>\<open>parts\<close>, and it lists the \<^verbatim>\<open>Part\<close> elements of the score in their order.
\<close>

datatype stream = Part bytes | Score "stream list" | OtherStream bytes

text \<open>
  An opened ZIP archive is the list of its entries in archive order.
\<close>

type_synonym archive = "(string \<times> bytes) list"

text \<open>
  What lies outside the source: the XML parser, the ZIP reader, music21, the temporary
  file names and the path arithmetic of \<^verbatim>\<open>os.path\<close>. Each is a field of the environment, so
  every theorem below holds for whatever these libraries compute.

  \<^item> \<open>music21_installed\<close>: whether \<^verbatim>\<open>from music21 import ...\<close> succeeds.
  \<^item> \<open>decode_utf8\<close>: \<^verbatim>\<open>b.decode('utf-8', errors='replace')\<close>, which never raises.
  \<^item> \<open>fromstring_tag\<close>: \<^verbatim>\<open>ET.fromstring(s).tag\<close> on a decoded string, the tag of the root
    element in ElementTree's form \<^verbatim>\<open>{namespace}local\<close>, or the exception raised.
  \<^item> \<open>xml_root\<close>: not used by the code. The tag of the root element of the XML document
    that the bytes are, read in the encoding the document itself announces, in the same
    form; \<open>None\<close> when the bytes are not a well-formed XML document.
  \<^item> \<open>unzip\<close>: the entries \<^verbatim>\<open>zipfile.ZipFile\<close> finds in a file's bytes, or \<open>None\<close> when it
    raises \<^verbatim>\<open>BadZipFile\<close>.
  \<^item> \<open>converter_parse\<close>: \<^verbatim>\<open>music21.converter.parse\<close> on a path holding the given bytes.
  \<^item> \<open>musicxml_of\<close>: the bytes \<^verbatim>\<open>write('musicxml', ...)\<close> serialises a stream to, or the
    exception it raises.
  \<^item> \<open>open_refused\<close>: the paths that \<^verbatim>\<open>open(path, 'wb')\<close> cannot open although they are
    not directories: the parent directory is missing or not writable.
  \<^item> \<open>tmp_create_refused\<close>: whether \<^verbatim>\<open>tempfile.NamedTemporaryFile\<close> raises for a suffix.
  \<^item> \<open>mktemp\<close>: the name \<^verbatim>\<open>tempfile.NamedTemporaryFile\<close> picks for a suffix.
  \<^item> \<open>tmp_write_error\<close>: \<open>None\<close> when writing and flushing the bytes to the temporary
    file of that name succeeds; \<open>Some left\<close> when it raises, with \<open>left\<close> the bytes that
    reached the file.
  \<^item> \<open>unlink_refused\<close>: the paths on which \<^verbatim>\<open>os.unlink\<close> raises although the file exists.
  \<^item> \<open>default_out\<close>: the path \<^verbatim>\<open>main\<close> derives from an input path, its directory joined
    with its base name and \<^verbatim>\<open>.musicxml\<close>.
\<close>

record env =
  music21_installed :: bool
  decode_utf8 :: "bytes \<Rightarrow> unicode"
  fromstring_tag :: "unicode \<Rightarrow> exn + string"
  xml_root :: "bytes \<Rightarrow> string option"
  unzip :: "bytes \<Rightarrow> archive option"
  converter_parse :: "path \<Rightarrow> bytes \<Rightarrow> exn + stream"
  musicxml_of :: "stream \<Rightarrow> exn + bytes"
  open_refused :: "filesystem \<Rightarrow> path \<Rightarrow> bool"
  tmp_create_refused :: "filesystem \<Rightarrow> string \<Rightarrow> bool"
  mktemp :: "filesystem \<Rightarrow> string \<Rightarrow> path"
  tmp_write_error :: "path \<Rightarrow> bytes \<Rightarrow> bytes option"
  unlink_refused :: "path \<Rightarrow> bool"
  default_out :: "path \<Rightarrow> path"

section \<open>Strings\<close>

text \<open>
  \<^verbatim>\<open>str.lower\<close> on the letters \<^verbatim>\<open>A\<close> to \<^verbatim>\<open>Z\<close>; every other character is left as it is.
\<close>

definition lower_char :: "char \<Rightarrow> char" where
  "lower_char c =
     (case map_of (zip ''ABCDEFGHIJKLMNOPQRSTUVWXYZ'' ''abcdefghijklmnopqrstuvwxyz'') c of
        Some d \<Rightarrow> d
      | None \<Rightarrow> c)"

definition lower :: "string \<Rightarrow> string" where
  "lower s = map lower_char s"

text \<open>\<^verbatim>\<open>s.endswith(suffix)\<close>.\<close>

definition endswith :: "string \<Rightarrow> string \<Rightarrow> bool" where
  "endswith s suffix = (length suffix \<le> length s \<and> drop (length s - length suffix) s = suffix)"

text \<open>\<^verbatim>\<open>tag.split('}', 1)[1]\<close>, for a tag that contains \<^verbatim>\<open>}\<close>: what follows the first one.\<close>

definition after_brace :: "string \<Rightarrow> string" where
  "after_brace tag = tl (dropWhile (\<lambda>c. c \<noteq> CHR ''}'') tag)"

section \<open>The MusicXML root-element test\<close>

definition is_musicxml_bytes :: "env \<Rightarrow> bytes \<Rightarrow> exn + bool" where
  "is_musicxml_bytes E b =
     (case fromstring_tag E (decode_utf8 E b) of
        Inl e \<Rightarrow> Inr False
      | Inr tag0 \<Rightarrow>
          (let tag = (if CHR ''}'' \<in> set tag0 then after_brace tag0 else tag0)
           in Inr (lower tag \<in> set [''score-partwise'', ''score-timewise'', ''score''])))"

section \<open>Files and archives\<close>

definition exists :: "filesystem \<Rightarrow> path \<Rightarrow> bool" where
  "exists fs p = (fs p \<noteq> None)"

definition isfile :: "filesystem \<Rightarrow> path \<Rightarrow> bool" where
  "isfile fs p = (case fs p of Some (File b) \<Rightarrow> True | _ \<Rightarrow> False)"

text \<open>
  \<^verbatim>\<open>write_bytes\<close>: \<^verbatim>\<open>open(path, 'wb')\<close> raises on the empty path, on a directory and on a
  path the environment refuses; otherwise the file holds exactly \<open>b\<close> afterwards.
\<close>

definition write_bytes ::
  "env \<Rightarrow> filesystem \<Rightarrow> path \<Rightarrow> bytes \<Rightarrow> (exn + unit) \<times> filesystem" where
  "write_bytes E fs p b =
     (if p = [] \<or> fs p = Some Dir \<or> open_refused E fs p then (Inl OSError, fs)
      else (Inr (), fs(p \<mapsto> File b)))"

text \<open>
  \<^verbatim>\<open>tempfile.NamedTemporaryFile(delete=False, suffix=...)\<close> followed by \<^verbatim>\<open>write\<close> and
  \<^verbatim>\<open>flush\<close>, as both functions below do before they enter \<^verbatim>\<open>try\<close>: when the creation
  raises there is no file; when the write raises the file is there, with what reached it,
  and stays (\<^verbatim>\<open>delete=False\<close>); otherwise the file holds \<open>b\<close> and its name is returned.
\<close>

definition named_temporary_file ::
  "env \<Rightarrow> filesystem \<Rightarrow> string \<Rightarrow> bytes \<Rightarrow> (exn + path) \<times> filesystem" where
  "named_temporary_file E fs suffix b =
     (if tmp_create_refused E fs suffix then (Inl OSError, fs)
      else
        (case tmp_write_error E (mktemp E fs suffix) b of
           Some left \<Rightarrow> (Inl OSError, fs(mktemp E fs suffix \<mapsto> File left))
         | None \<Rightarrow> (Inr (mktemp E fs suffix), fs(mktemp E fs suffix \<mapsto> File b))))"

text \<open>\<^verbatim>\<open>os.unlink\<close>: raises when the path holds no file or the system refuses.\<close>

definition unlink :: "env \<Rightarrow> filesystem \<Rightarrow> path \<Rightarrow> (exn + unit) \<times> filesystem" where
  "unlink E fs p =
     (if unlink_refused E p \<or> \<not> isfile fs p then (Inl OSError, fs)
      else (Inr (), fs(p := None)))"

text \<open>
  \<^verbatim>\<open>try: os.unlink(name) except Exception: pass\<close>, the clean-up of every temporary file in
  the source: a failure is swallowed and the file system stays as it is.
\<close>

definition unlink_quietly :: "env \<Rightarrow> filesystem \<Rightarrow> path \<Rightarrow> filesystem" where
  "unlink_quietly E fs p = snd (unlink E fs p)"

text \<open>
  \<^verbatim>\<open>zipfile.ZipFile(path, 'r')\<close>: an \<^verbatim>\<open>OSError\<close> when the path is no regular file,
  \<^verbatim>\<open>BadZipFile\<close> when its bytes are no ZIP archive.
\<close>

definition zip_open :: "env \<Rightarrow> filesystem \<Rightarrow> path \<Rightarrow> exn + archive" where
  "zip_open E fs p =
     (case fs p of
        None \<Rightarrow> Inl OSError
      | Some Dir \<Rightarrow> Inl OSError
      | Some (File b) \<Rightarrow> (case unzip E b of None \<Rightarrow> Inl BadZipFile | Some z \<Rightarrow> Inr z))"

definition namelist :: "archive \<Rightarrow> string list" where
  "namelist z = map fst z"

text \<open>
  \<^verbatim>\<open>z.read(name)\<close>: \<^verbatim>\<open>KeyError\<close> for a name the archive does not list; for a name listed
  more than once, the bytes of its last entry.
\<close>

definition zread :: "archive \<Rightarrow> string \<Rightarrow> exn + bytes" where
  "zread z name = (case map_of (rev z) name of None \<Rightarrow> Inl KeyError | Some b \<Rightarrow> Inr b)"

section \<open>music21\<close>

text \<open>\<^verbatim>\<open>converter.parse(name)\<close> reads the file at \<open>name\<close>.\<close>

definition m21_parse :: "env \<Rightarrow> filesystem \<Rightarrow> path \<Rightarrow> exn + stream" where
  "m21_parse E fs p =
     (case fs p of Some (File b) \<Rightarrow> converter_parse E p b | _ \<Rightarrow> Inl OSError)"

text \<open>
  \<^verbatim>\<open>s.write('musicxml', fp=out_path)\<close>: serialise, then write the file. A write that raises
  is taken to leave the file system as it was.
\<close>

definition m21_write :: "env \<Rightarrow> filesystem \<Rightarrow> stream \<Rightarrow> path \<Rightarrow> (exn + unit) \<times> filesystem" where
  "m21_write E fs s out_path =
     (case musicxml_of E s of
        Inl e \<Rightarrow> (Inl e, fs)
      | Inr xb \<Rightarrow> write_bytes E fs out_path xb)"

text \<open>\<^verbatim>\<open>hasattr(s, 'parts')\<close> and \<^verbatim>\<open>s.parts\<close>.\<close>

fun is_Part :: "stream \<Rightarrow> bool" where
  "is_Part (Part b) = True"
| "is_Part s = False"

fun has_parts :: "stream \<Rightarrow> bool" where
  "has_parts (Score els) = True"
| "has_parts s = False"

fun parts :: "stream \<Rightarrow> stream list" where
  "parts (Score els) = filter is_Part els"
| "parts s = []"

text \<open>\<^verbatim>\<open>combined.append(x)\<close> on a score.\<close>

fun append_stream :: "stream \<Rightarrow> stream \<Rightarrow> stream" where
  "append_stream (Score els) x = Score (els @ [x])"
| "append_stream s x = s"

section \<open>Exception handlers\<close>

text \<open>
  \<^verbatim>\<open>try: ... except zipfile.BadZipFile: return v\<close> around a block: that exception, raised
  anywhere in the block, becomes the return value \<open>v\<close>; any other exception goes on; a
  value the block returned stays.
\<close>

definition except_BadZipFile ::
  "'a \<Rightarrow> (exn + 'a) \<times> filesystem \<Rightarrow> (exn + 'a) \<times> filesystem" where
  "except_BadZipFile v r =
     (case r of
        (Inl BadZipFile, fs') \<Rightarrow> (Inr v, fs')
      | (Inl e, fs') \<Rightarrow> (Inl e, fs')
      | (Inr x, fs') \<Rightarrow> (Inr x, fs'))"

section \<open>MIDI conversion\<close>

text \<open>
  \<^verbatim>\<open>convert_mid_to_musicxml\<close>: the temporary \<^verbatim>\<open>.mid\<close> file is created and written first,
  outside \<^verbatim>\<open>try\<close>, so an exception there leaves the function; then the file is parsed and
  converted inside \<^verbatim>\<open>try\<close>, where every exception gives \<open>False\<close>, and \<^verbatim>\<open>finally\<close> removes the
  temporary file, quietly.
\<close>

definition convert_mid_to_musicxml ::
  "env \<Rightarrow> filesystem \<Rightarrow> bytes \<Rightarrow> path \<Rightarrow> (exn + bool) \<times> filesystem" where
  "convert_mid_to_musicxml E fs mid_bytes out_path =
     (if \<not> music21_installed E then (Inr False, fs)
      else
        (case named_temporary_file E fs ''.mid'' mid_bytes of
           (Inl e, fs1) \<Rightarrow> (Inl e, fs1)
         | (Inr tf_name, fs1) \<Rightarrow>
             let (ok, fs2) =
                   (case m21_parse E fs1 tf_name of
                      Inl e \<Rightarrow> (False, fs1)
                    | Inr score \<Rightarrow>
                        (case m21_write E fs1 score out_path of
                           (Inl e, fs') \<Rightarrow> (False, fs')
                         | (Inr u, fs') \<Rightarrow> (True, fs')))
             in (Inr ok, unlink_quietly E fs2 tf_name)))"

section \<open>Parsing an archive into a music21 stream\<close>

text \<open>
  The block the source repeats three times in \<^verbatim>\<open>parse_playscore_to_score\<close>: create a
  temporary file of the given suffix and write the bytes to it, outside \<^verbatim>\<open>try\<close>; then
  parse it, and remove the file in \<^verbatim>\<open>finally\<close>, whether \<^verbatim>\<open>converter.parse\<close> returned or
  raised.
\<close>

definition parse_via_tempfile ::
  "env \<Rightarrow> filesystem \<Rightarrow> bytes \<Rightarrow> string \<Rightarrow> (exn + stream option) \<times> filesystem" where
  "parse_via_tempfile E fs b suffix =
     (case named_temporary_file E fs suffix b of
        (Inl e, fs1) \<Rightarrow> (Inl e, fs1)
      | (Inr tf_name, fs1) \<Rightarrow>
          (case m21_parse E fs1 tf_name of
             Inl e \<Rightarrow> (Inl e, unlink_quietly E fs1 tf_name)
           | Inr score \<Rightarrow> (Inr (Some score), unlink_quietly E fs1 tf_name)))"

text \<open>The last loop of \<^verbatim>\<open>parse_playscore_to_score\<close>, over the names in archive order.\<close>

fun parse_scan ::
  "env \<Rightarrow> filesystem \<Rightarrow> archive \<Rightarrow> string list \<Rightarrow> (exn + stream option) \<times> filesystem" where
  "parse_scan E fs z [] = (Inr None, fs)"
| "parse_scan E fs z (name # rest) =
     (if endswith (lower name) ''.xml'' then
        (case zread z name of
           Inl e \<Rightarrow> (Inl e, fs)
         | Inr b \<Rightarrow>
             (case is_musicxml_bytes E b of
                Inl e \<Rightarrow> (Inl e, fs)
              | Inr True \<Rightarrow> parse_via_tempfile E fs b ''.musicxml''
              | Inr False \<Rightarrow> parse_scan E fs z rest))
      else parse_scan E fs z rest)"

text \<open>The \<^verbatim>\<open>doc.mid\<close> step and what follows it.\<close>

definition parse_from_mid ::
  "env \<Rightarrow> filesystem \<Rightarrow> archive \<Rightarrow> (exn + stream option) \<times> filesystem" where
  "parse_from_mid E fs z =
     (if ''doc.mid'' \<in> set (namelist z) then
        (case zread z ''doc.mid'' of
           Inl e \<Rightarrow> (Inl e, fs)
         | Inr mb \<Rightarrow> parse_via_tempfile E fs mb ''.mid'')
      else parse_scan E fs z (namelist z))"

text \<open>The body of the \<^verbatim>\<open>with zipfile.ZipFile(path, 'r') as z\<close> block.\<close>

definition parse_archive ::
  "env \<Rightarrow> filesystem \<Rightarrow> archive \<Rightarrow> (exn + stream option) \<times> filesystem" where
  "parse_archive E fs z =
     (if ''doc.xml'' \<in> set (namelist z) then
        (case zread z ''doc.xml'' of
           Inl e \<Rightarrow> (Inl e, fs)
         | Inr b \<Rightarrow>
             (case is_musicxml_bytes E b of
                Inl e \<Rightarrow> (Inl e, fs)
              | Inr True \<Rightarrow> parse_via_tempfile E fs b ''.musicxml''
              | Inr False \<Rightarrow> parse_from_mid E fs z))
      else parse_from_mid E fs z)"

text \<open>
  \<^verbatim>\<open>parse_playscore_to_score\<close>: \<open>None\<close> without music21; \<^verbatim>\<open>except zipfile.BadZipFile\<close> around
  the whole block turns that exception, wherever it was raised, into \<open>None\<close>; every other
  exception leaves the function.
\<close>

definition parse_playscore_to_score ::
  "env \<Rightarrow> filesystem \<Rightarrow> path \<Rightarrow> (exn + stream option) \<times> filesystem" where
  "parse_playscore_to_score E fs p =
     (if \<not> music21_installed E then (Inr None, fs)
      else
        except_BadZipFile None
          (case zip_open E fs p of
             Inl e \<Rightarrow> (Inl e, fs)
           | Inr z \<Rightarrow> parse_archive E fs z))"

section \<open>Extracting MusicXML bytes\<close>

fun extract_scan :: "env \<Rightarrow> archive \<Rightarrow> string list \<Rightarrow> exn + bytes option" where
  "extract_scan E z [] = Inr None"
| "extract_scan E z (name # rest) =
     (if endswith (lower name) ''.xml'' then
        (case zread z name of
           Inl e \<Rightarrow> Inl e
         | Inr b \<Rightarrow>
             (case is_musicxml_bytes E b of
                Inl e \<Rightarrow> Inl e
              | Inr True \<Rightarrow> Inr (Some b)
              | Inr False \<Rightarrow> extract_scan E z rest))
      else extract_scan E z rest)"

definition extract_from_mid :: "env \<Rightarrow> archive \<Rightarrow> exn + bytes option" where
  "extract_from_mid E z =
     (if ''doc.mid'' \<in> set (namelist z) then Inr None else extract_scan E z (namelist z))"

definition extract_archive :: "env \<Rightarrow> archive \<Rightarrow> exn + bytes option" where
  "extract_archive E z =
     (if ''doc.xml'' \<in> set (namelist z) then
        (case zread z ''doc.xml'' of
           Inl e \<Rightarrow> Inl e
         | Inr b \<Rightarrow>
             (case is_musicxml_bytes E b of
                Inl e \<Rightarrow> Inl e
              | Inr True \<Rightarrow> Inr (Some b)
              | Inr False \<Rightarrow> extract_from_mid E z))
      else extract_from_mid E z)"

definition extract_musicxml_bytes_from_playscore ::
  "env \<Rightarrow> filesystem \<Rightarrow> path \<Rightarrow> exn + bytes option" where
  "extract_musicxml_bytes_from_playscore E fs p =
     (case (case zip_open E fs p of Inl e \<Rightarrow> Inl e | Inr z \<Rightarrow> extract_archive E z) of
        Inl BadZipFile \<Rightarrow> Inr None
      | Inl e \<Rightarrow> Inl e
      | Inr r \<Rightarrow> Inr r)"

section \<open>Converting one file\<close>

text \<open>\<^verbatim>\<open>write_bytes(out, b); return 0\<close>.\<close>

definition write_and_return ::
  "env \<Rightarrow> filesystem \<Rightarrow> path \<Rightarrow> bytes \<Rightarrow> (exn + int) \<times> filesystem" where
  "write_and_return E fs out b =
     (case write_bytes E fs out b of
        (Inl e, fs') \<Rightarrow> (Inl e, fs')
      | (Inr u, fs') \<Rightarrow> (Inr 0, fs'))"

text \<open>The fallback loop of \<^verbatim>\<open>process_single_file\<close>; after it, \<^verbatim>\<open>return 4\<close>.\<close>

fun single_scan ::
  "env \<Rightarrow> filesystem \<Rightarrow> archive \<Rightarrow> path \<Rightarrow> string list \<Rightarrow> (exn + int) \<times> filesystem" where
  "single_scan E fs z out [] = (Inr 4, fs)"
| "single_scan E fs z out (name # rest) =
     (if endswith (lower name) ''.xml'' then
        (case zread z name of
           Inl e \<Rightarrow> (Inl e, fs)
         | Inr b \<Rightarrow>
             (case is_musicxml_bytes E b of
                Inl e \<Rightarrow> (Inl e, fs)
              | Inr True \<Rightarrow> write_and_return E fs out b
              | Inr False \<Rightarrow> single_scan E fs z out rest))
      else single_scan E fs z out rest)"

definition single_from_mid ::
  "env \<Rightarrow> filesystem \<Rightarrow> archive \<Rightarrow> path \<Rightarrow> (exn + int) \<times> filesystem" where
  "single_from_mid E fs z out =
     (if ''doc.mid'' \<in> set (namelist z) then
        (case zread z ''doc.mid'' of
           Inl e \<Rightarrow> (Inl e, fs)
         | Inr midb \<Rightarrow>
             (case convert_mid_to_musicxml E fs midb out of
                (Inl e, fs') \<Rightarrow> (Inl e, fs')
              | (Inr ok, fs') \<Rightarrow> (if ok then (Inr 0, fs') else (Inr 3, fs'))))
      else single_scan E fs z out (namelist z))"

definition single_archive ::
  "env \<Rightarrow> filesystem \<Rightarrow> archive \<Rightarrow> path \<Rightarrow> (exn + int) \<times> filesystem" where
  "single_archive E fs z out =
     (if ''doc.xml'' \<in> set (namelist z) then
        (case zread z ''doc.xml'' of
           Inl e \<Rightarrow> (Inl e, fs)
         | Inr b \<Rightarrow>
             (case is_musicxml_bytes E b of
                Inl e \<Rightarrow> (Inl e, fs)
              | Inr True \<Rightarrow> write_and_return E fs out b
              | Inr False \<Rightarrow> single_from_mid E fs z out))
      else single_from_mid E fs z out)"

text \<open>
  \<^verbatim>\<open>process_single_file\<close>: the input check comes first, then the overwrite check, then the
  archive; \<^verbatim>\<open>except zipfile.BadZipFile\<close> gives 2, any other exception leaves the function.
\<close>

definition process_single_file ::
  "env \<Rightarrow> filesystem \<Rightarrow> path \<Rightarrow> path \<Rightarrow> bool \<Rightarrow> (exn + int) \<times> filesystem" where
  "process_single_file E fs inp out overwrite =
     (if \<not> isfile fs inp then (Inr 2, fs)
      else if exists fs out \<and> \<not> overwrite then (Inr 0, fs)
      else
        except_BadZipFile 2
          (case zip_open E fs inp of
             Inl e \<Rightarrow> (Inl e, fs)
           | Inr z \<Rightarrow> single_archive E fs z out))"

section \<open>Merging\<close>

text \<open>The first loop of \<^verbatim>\<open>merge_files\<close>: \<^verbatim>\<open>parsed_scores\<close> grows by every input that parsed.\<close>

fun parse_inputs ::
  "env \<Rightarrow> filesystem \<Rightarrow> path list \<Rightarrow> (path \<times> stream) list \<Rightarrow>
     (exn + (path \<times> stream) list) \<times> filesystem" where
  "parse_inputs E fs [] parsed_scores = (Inr parsed_scores, fs)"
| "parse_inputs E fs (f # rest) parsed_scores =
     (case parse_playscore_to_score E fs f of
        (Inl e, fs') \<Rightarrow> (Inl e, fs')
      | (Inr None, fs') \<Rightarrow> parse_inputs E fs' rest parsed_scores
      | (Inr (Some s), fs') \<Rightarrow> parse_inputs E fs' rest (parsed_scores @ [(f, s)]))"

text \<open>The inner loop \<^verbatim>\<open>for p in s.parts\<close>.\<close>

fun append_parts :: "stream list \<Rightarrow> stream \<times> nat \<Rightarrow> stream \<times> nat" where
  "append_parts [] acc = acc"
| "append_parts (p # ps) (combined, part_count) =
     append_parts ps (append_stream combined p, part_count + 1)"

text \<open>The second loop: the state is \<^verbatim>\<open>combined\<close> and \<^verbatim>\<open>part_count\<close>.\<close>

fun combine :: "(path \<times> stream) list \<Rightarrow> stream \<times> nat \<Rightarrow> stream \<times> nat" where
  "combine [] acc = acc"
| "combine ((fname, s) # rest) (combined, part_count) =
     (if has_parts s \<and> length (parts s) > 0
      then combine rest (append_parts (parts s) (combined, part_count))
      else combine rest (append_stream combined s, part_count + 1))"

definition merge_files ::
  "env \<Rightarrow> filesystem \<Rightarrow> path list \<Rightarrow> path \<Rightarrow> bool \<Rightarrow> (exn + int) \<times> filesystem" where
  "merge_files E fs inputs out_path overwrite =
     (if exists fs out_path \<and> \<not> overwrite then (Inr 0, fs)
      else if \<not> music21_installed E then (Inr 3, fs)
      else
        (case parse_inputs E fs inputs [] of
           (Inl e, fs') \<Rightarrow> (Inl e, fs')
         | (Inr parsed_scores, fs') \<Rightarrow>
             (if parsed_scores = [] then (Inr 4, fs')
              else
                (case m21_write E fs' (fst (combine parsed_scores (Score [], 0))) out_path of
                   (Inl e, fs'') \<Rightarrow> (Inr 5, fs'')
                 | (Inr u, fs'') \<Rightarrow> (Inr 0, fs'')))))"

section \<open>The batch of single conversions in main\<close>

text \<open>
  The loop of \<^verbatim>\<open>main\<close> when \<^verbatim>\<open>--merge\<close> is not set. \<open>output\<close> is \<^verbatim>\<open>args.output\<close>, \<open>n\<close> is
  \<^verbatim>\<open>len(files)\<close>, and the last argument is \<^verbatim>\<open>exit_code\<close>, 0 at the start. The result is the
  status handed to \<^verbatim>\<open>sys.exit\<close>.
\<close>

definition out_for :: "env \<Rightarrow> string option \<Rightarrow> nat \<Rightarrow> path \<Rightarrow> path" where
  "out_for E output n f =
     (case output of
        Some p \<Rightarrow> (if p \<noteq> [] \<and> n = 1 then p else default_out E f)
      | None \<Rightarrow> default_out E f)"

fun single_loop ::
  "env \<Rightarrow> filesystem \<Rightarrow> string option \<Rightarrow> bool \<Rightarrow> nat \<Rightarrow> path list \<Rightarrow> int \<Rightarrow>
     (exn + int) \<times> filesystem" where
  "single_loop E fs output overwrite n [] exit_code = (Inr exit_code, fs)"
| "single_loop E fs output overwrite n (f # rest) exit_code =
     (case process_single_file E fs f (out_for E output n f) overwrite of
        (Inl e, fs') \<Rightarrow> (Inl e, fs')
      | (Inr rc, fs') \<Rightarrow>
          single_loop E fs' output overwrite n rest (if rc \<noteq> 0 then rc else exit_code))"

definition main_single ::
  "env \<Rightarrow> filesystem \<Rightarrow> string option \<Rightarrow> bool \<Rightarrow> path list \<Rightarrow> (exn + int) \<times> filesystem" where
  "main_single E fs output overwrite files =
     single_loop E fs output overwrite (length files) files 0"

section \<open>The specification's notions\<close>








text \<open>
  The classification of an archive as the specification words it. The bytes of the entry
  of a name are what the archive reads for that name; an entry passes when the
  root-element test returns true on its bytes.
\<close>

datatype classification = DirectMusicXML bytes | MidiPayload bytes | Unrecognized

definition entry_bytes :: "archive \<Rightarrow> string \<Rightarrow> bytes" where
  "entry_bytes z name = (case zread z name of Inr b \<Rightarrow> b | Inl e \<Rightarrow> [])"

definition passes :: "env \<Rightarrow> archive \<Rightarrow> string \<Rightarrow> bool" where
  "passes E z name = (is_musicxml_bytes E (entry_bytes z name) = Inr True)"

definition xml_candidate :: "env \<Rightarrow> archive \<Rightarrow> string \<Rightarrow> bool" where
  "xml_candidate E z name =
     (name \<noteq> ''doc.xml'' \<and> name \<noteq> ''doc.mid'' \<and> endswith (lower name) ''.xml'' \<and> passes E z name)"

text \<open>What the fallback loops of the source look for: a name that ends in \<^verbatim>\<open>.xml\<close> and passes.\<close>

definition xml_hit :: "env \<Rightarrow> archive \<Rightarrow> string \<Rightarrow> bool" where
  "xml_hit E z name = (endswith (lower name) ''.xml'' \<and> passes E z name)"

definition classify_spec :: "env \<Rightarrow> archive \<Rightarrow> classification" where
  "classify_spec E z =
     (if ''doc.xml'' \<in> set (namelist z) \<and> passes E z ''doc.xml''
      then DirectMusicXML (entry_bytes z ''doc.xml'')
      else if ''doc.mid'' \<in> set (namelist z)
      then MidiPayload (entry_bytes z ''doc.mid'')
      else
        (case filter (xml_candidate E z) (namelist z) of
           [] \<Rightarrow> Unrecognized
         | name # rest \<Rightarrow> DirectMusicXML (entry_bytes z name)))"

text \<open>
  What each parsed source gives to the combined score, in the specification's words: its
  declared parts if it has any, else the whole score as one implicit part.
\<close>

definition contribution :: "stream \<Rightarrow> stream list" where
  "contribution s = (if parts s = [] then [s] else parts s)"

text \<open>
  The inputs that resolve, each with its parsed score, in input order: those for which
  \<^verbatim>\<open>parse_playscore_to_score\<close> returns a score.
\<close>

definition resolved :: "env \<Rightarrow> filesystem \<Rightarrow> path list \<Rightarrow> (path \<times> stream) list" where
  "resolved E fs inputs =
     concat (map (\<lambda>f. case fst (parse_playscore_to_score E fs f) of
                          Inr (Some s) \<Rightarrow> [(f, s)]
                        | Inr None \<Rightarrow> []
                        | Inl e \<Rightarrow> []) inputs)"

text \<open>Whether \<^verbatim>\<open>parse_playscore_to_score\<close> raises on an input.\<close>

definition raises :: "env \<Rightarrow> filesystem \<Rightarrow> path \<Rightarrow> bool" where
  "raises E fs f = (case fst (parse_playscore_to_score E fs f) of Inl e \<Rightarrow> True | Inr r \<Rightarrow> False)"

text \<open>The last return code of a batch that is not zero, or zero when there is none.\<close>

definition last_failure :: "int list \<Rightarrow> int" where
  "last_failure rcs = (case filter (\<lambda>rc. rc \<noteq> 0) rcs of [] \<Rightarrow> 0 | r # rs \<Rightarrow> last (r # rs))"

text \<open>
  No input resolves: each input in turn, in the file system the earlier ones left behind,
  makes \<^verbatim>\<open>parse_playscore_to_score\<close> return \<open>None\<close>.
\<close>

fun none_resolve :: "env \<Rightarrow> filesystem \<Rightarrow> path list \<Rightarrow> bool" where
  "none_resolve E fs [] = True"
| "none_resolve E fs (f # rest) =
     (case parse_playscore_to_score E fs f of
        (Inr None, fs') \<Rightarrow> none_resolve E fs' rest
      | (Inr (Some s), fs') \<Rightarrow> False
      | (Inl e, fs') \<Rightarrow> False)"

text \<open>An input that is a corrupt ZIP file, or an archive without a usable payload.\<close>

definition unusable :: "env \<Rightarrow> filesystem \<Rightarrow> path \<Rightarrow> bool" where
  "unusable E fs f =
     (case zip_open E fs f of
        Inl e \<Rightarrow> e = BadZipFile
      | Inr z \<Rightarrow> classify_spec E z = Unrecognized)"

text \<open>
  The temporary file of a suffix behaves: its name is new, it is not the output path,
  writing to it does not fail, and the system does not refuse to remove it.
\<close>

definition scratch_ok :: "env \<Rightarrow> filesystem \<Rightarrow> path \<Rightarrow> string \<Rightarrow> bool" where
  "scratch_ok E fs out suffix =
     (mktemp E fs suffix \<notin> dom fs \<and> mktemp E fs suffix \<noteq> out \<and>
      (\<forall>b. tmp_write_error E (mktemp E fs suffix) b = None) \<and>
      \<not> unlink_refused E (mktemp E fs suffix))"

text \<open>
  The return codes of the calls a batch makes, in order, up to the first call that raises.
\<close>

fun return_codes ::
  "env \<Rightarrow> filesystem \<Rightarrow> string option \<Rightarrow> bool \<Rightarrow> nat \<Rightarrow> path list \<Rightarrow> int list" where
  "return_codes E fs output overwrite n [] = []"
| "return_codes E fs output overwrite n (f # rest) =
     (case process_single_file E fs f (out_for E output n f) overwrite of
        (Inl e, fs') \<Rightarrow> []
      | (Inr rc, fs') \<Rightarrow> rc # return_codes E fs' output overwrite n rest)"

section \<open>A sample environment\<close>

text \<open>
  A small concrete world on which the theorems are instantiated: a decoder that is right
  on ASCII bytes and on bytes that never occur in UTF-8 (the samples hold no others), an
  XML parser that knows four documents, a ZIP reader that knows six archives, and a
  music21 that parses three payloads and raises on everything else. The sample documents
  are what Python's ElementTree makes of them: it returns these tags for the four
  documents, and it rejects the UTF-16 document once that has been decoded as UTF-8,
  though the bytes themselves are a well-formed document with the root
  \<^verbatim>\<open>score-partwise\<close>.
\<close>

definition code_points :: "string \<Rightarrow> unicode" where
  "code_points s = map of_char s"

definition sample_decode :: "bytes \<Rightarrow> unicode" where
  "sample_decode b = map (\<lambda>c. if (of_char c :: nat) < 128 then of_char c else 65533) b"

definition sample_tag :: "unicode \<Rightarrow> exn + string" where
  "sample_tag s =
     (if s = code_points ''<score-partwise/>'' then Inr ''score-partwise''
      else if s = code_points ''<Score-Partwise xmlns='ns'/>'' then Inr ''{ns}Score-Partwise''
      else if s = code_points ''<score-partwise xmlns='urn:x'/>''
        then Inr ''{urn:x}score-partwise''
      else if s = code_points ''<foo/>'' then Inr ''foo''
      else Inl ParseError)"

text \<open>\<^verbatim>\<open>'<score-partwise/>'.encode('utf-16')\<close>: the byte order mark, then two bytes a character.\<close>

definition utf16_score :: bytes where
  "utf16_score = [CHR 0xFF, CHR 0xFE] @ concat (map (\<lambda>c. [c, CHR 0x00]) ''<score-partwise/>'')"

definition sample_xml_root :: "bytes \<Rightarrow> string option" where
  "sample_xml_root b =
     (if b = utf16_score then Some ''score-partwise''
      else (case sample_tag (sample_decode b) of Inr tag \<Rightarrow> Some tag | Inl e \<Rightarrow> None))"

definition sample_unzip :: "bytes \<Rightarrow> archive option" where
  "sample_unzip b =
     (if b = ''PK xml'' then Some [(''doc.xml'', ''<score-partwise/>'')]
      else if b = ''PK two'' then Some [(''doc.mid'', ''MThd two'')]
      else if b = ''PK one'' then Some [(''doc.mid'', ''MThd one'')]
      else if b = ''PK bad'' then Some [(''doc.mid'', ''garbage'')]
      else if b = ''PK none'' then Some [(''readme.txt'', ''hello'')]
      else if b = ''PK scan'' then
        Some [(''doc.xml'', ''<foo/>''), (''notes.txt'', ''x''),
              (''Song.XML'', ''<Score-Partwise xmlns='ns'/>'')]
      else None)"

definition sample_parse :: "path \<Rightarrow> bytes \<Rightarrow> exn + stream" where
  "sample_parse p b =
     (if b = ''MThd two'' then Inr (Score [Part ''violin'', Part ''cello''])
      else if b = ''MThd one'' then Inr (OtherStream ''melody'')
      else if b = ''<score-partwise/>'' then Inr (Score [Part ''piano''])
      else Inl Music21Error)"

fun render :: "stream \<Rightarrow> bytes" where
  "render (Part b) = ''<part>'' @ b @ ''</part>''"
| "render (Score els) = ''<score>'' @ concat (map render els) @ ''</score>''"
| "render (OtherStream b) = ''<stream>'' @ b @ ''</stream>''"

definition sample_env :: env where
  "sample_env =
     \<lparr> music21_installed = True,
       decode_utf8 = sample_decode,
       fromstring_tag = sample_tag,
       xml_root = sample_xml_root,
       unzip = sample_unzip,
       converter_parse = sample_parse,
       musicxml_of = (\<lambda>s. Inr (render s)),
       open_refused = (\<lambda>fs p. False),
       tmp_create_refused = (\<lambda>fs suffix. False),
       mktemp = (\<lambda>fs suffix. ''/tmp/tmp0'' @ suffix),
       tmp_write_error = (\<lambda>p b. None),
       unlink_refused = (\<lambda>p. False),
       default_out = (\<lambda>f. f @ ''.musicxml'') \<rparr>"

definition sample_fs :: filesystem where
  "sample_fs =
     [''a.playscore'' \<mapsto> File ''PK two'',
      ''b.playscore'' \<mapsto> File ''not a zip'',
      ''c.playscore'' \<mapsto> File ''PK one'',
      ''x.playscore'' \<mapsto> File ''PK xml'',
      ''n.playscore'' \<mapsto> File ''PK none'',
      ''bad.playscore'' \<mapsto> File ''PK bad'',
      ''s.playscore'' \<mapsto> File ''PK scan'',
      ''old.musicxml'' \<mapsto> File ''old'']"

section \<open>The sample environment, evaluated\<close>

text \<open>The definitions a concrete evaluation unfolds.\<close>

lemmas sample_defs = sample_env_def sample_fs_def sample_unzip_def sample_tag_def sample_parse_def
  sample_decode_def code_points_def

lemmas code_defs = process_single_file_def single_archive_def single_from_mid_def
  convert_mid_to_musicxml_def write_and_return_def write_bytes_def m21_parse_def m21_write_def
  named_temporary_file_def
  unlink_quietly_def unlink_def zip_open_def zread_def namelist_def isfile_def exists_def
  except_BadZipFile_def is_musicxml_bytes_def lower_def lower_char_def endswith_def after_brace_def

lemmas parse_defs = parse_playscore_to_score_def parse_archive_def parse_from_mid_def
  parse_via_tempfile_def

lemmas spec_defs = classify_spec_def passes_def entry_bytes_def xml_candidate_def xml_hit_def

lemma sample_scan_open:
  "zip_open sample_env sample_fs ''s.playscore'' =
     Inr [(''doc.xml'', ''<foo/>''), (''notes.txt'', ''x''),
          (''Song.XML'', ''<Score-Partwise xmlns='ns'/>'')]"
  by (simp add: zip_open_def sample_env_def sample_fs_def sample_unzip_def)

lemma sample_xml_open:
  "zip_open sample_env sample_fs ''x.playscore'' = Inr [(''doc.xml'', ''<score-partwise/>'')]"
  by (simp add: zip_open_def sample_env_def sample_fs_def sample_unzip_def)

section \<open>The root-element test\<close>








section \<open>The overwrite short-circuit of the merge\<close>

text \<open>
  C10. When the output path exists and overwrite is false, \<^verbatim>\<open>merge_files\<close> returns 0 at
  once and leaves the file system as it is: whatever the inputs are (none, or none that
  parses) and whether music21 is installed or not.
\<close>

theorem merge_files_short_circuit:
  "exists fs out_path \<Longrightarrow> merge_files E fs inputs out_path False = (Inr 0, fs)"
  by (simp add: merge_files_def)

theorem merge_files_short_circuit_witness:
  "exists sample_fs ''old.musicxml'' \<and>
   merge_files (sample_env\<lparr>music21_installed := False\<rparr>) sample_fs [] ''old.musicxml'' False
     = (Inr 0, sample_fs) \<and>
   merge_files (sample_env\<lparr>music21_installed := False\<rparr>) sample_fs
     [''b.playscore'', ''missing.playscore''] ''old.musicxml'' False = (Inr 0, sample_fs)"
proof -
  have h: "exists sample_fs ''old.musicxml''"
    by (simp add: exists_def sample_fs_def)
  show ?thesis
    using h
      merge_files_short_circuit [OF h, of "sample_env\<lparr>music21_installed := False\<rparr>" "[]"]
      merge_files_short_circuit [OF h, of "sample_env\<lparr>music21_installed := False\<rparr>"
        "[''b.playscore'', ''missing.playscore'']"]
    by simp
qed

section \<open>Classification of an archive\<close>

lemma zread_listed:
  "name \<in> set (namelist z) \<Longrightarrow> zread z name = Inr (entry_bytes z name)"
proof -
  assume "name \<in> set (namelist z)"
  then have "name \<in> fst ` set (rev z)" by (simp add: namelist_def)
  then obtain b where "map_of (rev z) name = Some b"
    by (metis domD dom_map_of_conv_image_fst)
  then show ?thesis by (simp add: zread_def entry_bytes_def)
qed

lemma test_cases:
  "is_musicxml_bytes E b = Inr True \<or> is_musicxml_bytes E b = Inr False"
  by (cases "fromstring_tag E (decode_utf8 E b)") (auto simp: is_musicxml_bytes_def Let_def)

lemma not_passes: "\<not> passes E z name \<Longrightarrow> is_musicxml_bytes E (entry_bytes z name) = Inr False"
  using test_cases [of E "entry_bytes z name"] by (auto simp: passes_def)

lemma doc_mid_no_xml: "\<not> endswith (lower ''doc.mid'') ''.xml''"
  by (simp add: endswith_def lower_def lower_char_def)

lemma filter_candidates:
  assumes "\<not> (''doc.xml'' \<in> set (namelist z) \<and> passes E z ''doc.xml'')"
  shows "set names \<subseteq> set (namelist z) \<Longrightarrow> filter (xml_candidate E z) names = filter (xml_hit E z) names"
  using assms doc_mid_no_xml
  by (intro filter_cong) (auto simp: xml_candidate_def xml_hit_def)

lemma single_scan_filter:
  "set names \<subseteq> set (namelist z) \<Longrightarrow>
   single_scan E fs z out names =
     (case filter (xml_hit E z) names of
        [] \<Rightarrow> (Inr 4, fs)
      | name # rest \<Rightarrow> write_and_return E fs out (entry_bytes z name))"
proof (induction names)
  case Nil
  then show ?case by simp
next
  case (Cons n ns)
  then have n: "zread z n = Inr (entry_bytes z n)" by (simp add: zread_listed)
  show ?case
  proof (cases "xml_hit E z n")
    case True
    then show ?thesis using n by (simp add: xml_hit_def passes_def)
  next
    case False
    then show ?thesis using n Cons by (auto simp: xml_hit_def dest: not_passes)
  qed
qed

lemma parse_scan_filter:
  "set names \<subseteq> set (namelist z) \<Longrightarrow>
   parse_scan E fs z names =
     (case filter (xml_hit E z) names of
        [] \<Rightarrow> (Inr None, fs)
      | name # rest \<Rightarrow> parse_via_tempfile E fs (entry_bytes z name) ''.musicxml'')"
proof (induction names)
  case Nil
  then show ?case by simp
next
  case (Cons n ns)
  then have n: "zread z n = Inr (entry_bytes z n)" by (simp add: zread_listed)
  show ?case
  proof (cases "xml_hit E z n")
    case True
    then show ?thesis using n by (simp add: xml_hit_def passes_def)
  next
    case False
    then show ?thesis using n Cons by (auto simp: xml_hit_def dest: not_passes)
  qed
qed

lemma extract_scan_filter:
  "set names \<subseteq> set (namelist z) \<Longrightarrow>
   extract_scan E z names =
     (case filter (xml_hit E z) names of
        [] \<Rightarrow> Inr None
      | name # rest \<Rightarrow> Inr (Some (entry_bytes z name)))"
proof (induction names)
  case Nil
  then show ?case by simp
next
  case (Cons n ns)
  then have n: "zread z n = Inr (entry_bytes z n)" by (simp add: zread_listed)
  show ?case
  proof (cases "xml_hit E z n")
    case True
    then show ?thesis using n by (simp add: xml_hit_def passes_def)
  next
    case False
    then show ?thesis using n Cons by (auto simp: xml_hit_def dest: not_passes)
  qed
qed

lemma single_archive_classify:
  "single_archive E fs z out =
     (case classify_spec E z of
        DirectMusicXML b \<Rightarrow> write_and_return E fs out b
      | MidiPayload midb \<Rightarrow>
          (case convert_mid_to_musicxml E fs midb out of
             (Inl e, fs') \<Rightarrow> (Inl e, fs')
           | (Inr ok, fs') \<Rightarrow> (if ok then (Inr 0, fs') else (Inr 3, fs')))
      | Unrecognized \<Rightarrow> (Inr 4, fs))"
proof (cases "''doc.xml'' \<in> set (namelist z) \<and> passes E z ''doc.xml''")
  case True
  then show ?thesis
    by (simp add: single_archive_def classify_spec_def zread_listed passes_def)
next
  case False
  then have a: "single_archive E fs z out = single_from_mid E fs z out"
    by (auto simp: single_archive_def zread_listed dest: not_passes)
  show ?thesis
  proof (cases "''doc.mid'' \<in> set (namelist z)")
    case True
    with False a show ?thesis
      by (auto simp: single_from_mid_def classify_spec_def zread_listed)
  next
    case nomid: False
    have "single_from_mid E fs z out = single_scan E fs z out (namelist z)"
      using nomid by (simp add: single_from_mid_def)
    also have "\<dots> = (case filter (xml_hit E z) (namelist z) of
        [] \<Rightarrow> (Inr 4, fs)
      | name # rest \<Rightarrow> write_and_return E fs out (entry_bytes z name))"
      by (rule single_scan_filter) simp
    finally show ?thesis
      using False nomid a filter_candidates [OF False, of "namelist z"]
      by (auto simp: classify_spec_def split: list.splits)
  qed
qed

lemma parse_archive_classify:
  "parse_archive E fs z =
     (case classify_spec E z of
        DirectMusicXML b \<Rightarrow> parse_via_tempfile E fs b ''.musicxml''
      | MidiPayload midb \<Rightarrow> parse_via_tempfile E fs midb ''.mid''
      | Unrecognized \<Rightarrow> (Inr None, fs))"
proof (cases "''doc.xml'' \<in> set (namelist z) \<and> passes E z ''doc.xml''")
  case True
  then show ?thesis
    by (simp add: parse_archive_def classify_spec_def zread_listed passes_def)
next
  case False
  then have a: "parse_archive E fs z = parse_from_mid E fs z"
    by (auto simp: parse_archive_def zread_listed dest: not_passes)
  show ?thesis
  proof (cases "''doc.mid'' \<in> set (namelist z)")
    case True
    with False a show ?thesis
      by (auto simp: parse_from_mid_def classify_spec_def zread_listed)
  next
    case nomid: False
    have "parse_from_mid E fs z = parse_scan E fs z (namelist z)"
      using nomid by (simp add: parse_from_mid_def)
    also have "\<dots> = (case filter (xml_hit E z) (namelist z) of
        [] \<Rightarrow> (Inr None, fs)
      | name # rest \<Rightarrow> parse_via_tempfile E fs (entry_bytes z name) ''.musicxml'')"
      by (rule parse_scan_filter) simp
    finally show ?thesis
      using False nomid a filter_candidates [OF False, of "namelist z"]
      by (auto simp: classify_spec_def split: list.splits)
  qed
qed

lemma extract_archive_classify:
  "extract_archive E z =
     Inr (case classify_spec E z of
        DirectMusicXML b \<Rightarrow> Some b
      | MidiPayload midb \<Rightarrow> None
      | Unrecognized \<Rightarrow> None)"
proof (cases "''doc.xml'' \<in> set (namelist z) \<and> passes E z ''doc.xml''")
  case True
  then show ?thesis
    by (simp add: extract_archive_def classify_spec_def zread_listed passes_def)
next
  case False
  then have a: "extract_archive E z = extract_from_mid E z"
    by (auto simp: extract_archive_def zread_listed dest: not_passes)
  show ?thesis
  proof (cases "''doc.mid'' \<in> set (namelist z)")
    case True
    with False a show ?thesis
      by (auto simp: extract_from_mid_def classify_spec_def zread_listed)
  next
    case nomid: False
    have "extract_from_mid E z = extract_scan E z (namelist z)"
      using nomid by (simp add: extract_from_mid_def)
    also have "\<dots> = (case filter (xml_hit E z) (namelist z) of
        [] \<Rightarrow> Inr None
      | name # rest \<Rightarrow> Inr (Some (entry_bytes z name)))"
      by (rule extract_scan_filter) simp
    finally show ?thesis
      using False nomid a filter_candidates [OF False, of "namelist z"]
      by (auto simp: classify_spec_def split: list.splits)
  qed
qed

lemma zip_open_isfile: "zip_open E fs p = Inr z \<Longrightarrow> isfile fs p"
  by (auto simp: zip_open_def isfile_def split: option.splits node.splits)

text \<open>
  C1. Every archive the code opens is classified by the priority list of the
  specification, \<open>classify_spec\<close>: \<^verbatim>\<open>doc.xml\<close> when its bytes pass the root-element test; else
  \<^verbatim>\<open>doc.mid\<close>, with no look at its bytes; else the first of the other entries, in archive
  order, whose name ends in \<^verbatim>\<open>.xml\<close> whatever the case and whose bytes pass; else nothing.
  \<^verbatim>\<open>process_single_file\<close> writes the bytes of a direct MusicXML payload as they are, hands
  a MIDI payload to the conversion and returns 4 for an unrecognised archive;
  \<^verbatim>\<open>parse_playscore_to_score\<close> parses the payload of the same classification or returns
  \<open>None\<close>; \<^verbatim>\<open>extract_musicxml_bytes_from_playscore\<close> returns the direct bytes or \<open>None\<close>.
\<close>

theorem classification_priority:
  assumes "zip_open E fs p = Inr z"
  shows "(\<not> (exists fs out \<and> \<not> overwrite) \<longrightarrow>
           process_single_file E fs p out overwrite =
             except_BadZipFile 2
               (case classify_spec E z of
                  DirectMusicXML b \<Rightarrow> write_and_return E fs out b
                | MidiPayload midb \<Rightarrow>
                    (case convert_mid_to_musicxml E fs midb out of
                       (Inl e, fs') \<Rightarrow> (Inl e, fs')
                     | (Inr ok, fs') \<Rightarrow> (if ok then (Inr 0, fs') else (Inr 3, fs')))
                | Unrecognized \<Rightarrow> (Inr 4, fs))) \<and>
         (music21_installed E \<longrightarrow>
           parse_playscore_to_score E fs p =
             except_BadZipFile None
               (case classify_spec E z of
                  DirectMusicXML b \<Rightarrow> parse_via_tempfile E fs b ''.musicxml''
                | MidiPayload midb \<Rightarrow> parse_via_tempfile E fs midb ''.mid''
                | Unrecognized \<Rightarrow> (Inr None, fs))) \<and>
         extract_musicxml_bytes_from_playscore E fs p =
           Inr (case classify_spec E z of
                  DirectMusicXML b \<Rightarrow> Some b
                | MidiPayload midb \<Rightarrow> None
                | Unrecognized \<Rightarrow> None)"
proof (intro conjI impI)
  assume "\<not> (exists fs out \<and> \<not> overwrite)"
  then show "process_single_file E fs p out overwrite =
             except_BadZipFile 2
               (case classify_spec E z of
                  DirectMusicXML b \<Rightarrow> write_and_return E fs out b
                | MidiPayload midb \<Rightarrow>
                    (case convert_mid_to_musicxml E fs midb out of
                       (Inl e, fs') \<Rightarrow> (Inl e, fs')
                     | (Inr ok, fs') \<Rightarrow> (if ok then (Inr 0, fs') else (Inr 3, fs')))
                | Unrecognized \<Rightarrow> (Inr 4, fs))"
    using assms zip_open_isfile [OF assms]
    by (auto simp: process_single_file_def single_archive_classify)
next
  assume "music21_installed E"
  then show "parse_playscore_to_score E fs p =
             except_BadZipFile None
               (case classify_spec E z of
                  DirectMusicXML b \<Rightarrow> parse_via_tempfile E fs b ''.musicxml''
                | MidiPayload midb \<Rightarrow> parse_via_tempfile E fs midb ''.mid''
                | Unrecognized \<Rightarrow> (Inr None, fs))"
    using assms by (simp add: parse_playscore_to_score_def parse_archive_classify)
next
  show "extract_musicxml_bytes_from_playscore E fs p =
           Inr (case classify_spec E z of
                  DirectMusicXML b \<Rightarrow> Some b
                | MidiPayload midb \<Rightarrow> None
                | Unrecognized \<Rightarrow> None)"
    using assms
    by (simp add: extract_musicxml_bytes_from_playscore_def extract_archive_classify)
qed

lemma sample_scan_classify:
  "classify_spec sample_env [(''doc.xml'', ''<foo/>''), (''notes.txt'', ''x''),
          (''Song.XML'', ''<Score-Partwise xmlns='ns'/>'')] = DirectMusicXML ''<Score-Partwise xmlns='ns'/>''"
  by (simp add: classify_spec_def namelist_def passes_def entry_bytes_def zread_def
      xml_candidate_def endswith_def lower_def lower_char_def is_musicxml_bytes_def
      sample_defs after_brace_def)

lemma sample_xml_classify:
  "classify_spec sample_env [(''doc.xml'', ''<score-partwise/>'')] =
     DirectMusicXML ''<score-partwise/>''"
  by (simp add: spec_defs namelist_def zread_def is_musicxml_bytes_def lower_def lower_char_def
      sample_defs)

theorem classification_priority_witness:
  "process_single_file sample_env sample_fs ''s.playscore'' ''s.musicxml'' False =
     (Inr 0, sample_fs(''s.musicxml'' \<mapsto> File ''<Score-Partwise xmlns='ns'/>'')) \<and>
   extract_musicxml_bytes_from_playscore sample_env sample_fs ''s.playscore'' =
     Inr (Some ''<Score-Partwise xmlns='ns'/>'') \<and>
   fst (parse_playscore_to_score sample_env sample_fs ''x.playscore'') =
     Inr (Some (Score [Part ''piano'']))"
proof -
  have ne: "\<not> (exists sample_fs ''s.musicxml'' \<and> \<not> False)"
    by (simp add: exists_def sample_fs_def)
  have nd: "sample_fs ''s.musicxml'' \<noteq> Some Dir"
    by (simp add: sample_fs_def)
  have nr: "\<not> open_refused sample_env sample_fs ''s.musicxml''"
    by (simp add: sample_env_def)
  have m: "music21_installed sample_env"
    by (simp add: sample_env_def)
  have a: "process_single_file sample_env sample_fs ''s.playscore'' ''s.musicxml'' False =
     (Inr 0, sample_fs(''s.musicxml'' \<mapsto> File ''<Score-Partwise xmlns='ns'/>'')) \<and>
   extract_musicxml_bytes_from_playscore sample_env sample_fs ''s.playscore'' =
     Inr (Some ''<Score-Partwise xmlns='ns'/>'')"
    using classification_priority [OF sample_scan_open, of "''s.musicxml''" False] ne nd nr
    by (simp add: sample_scan_classify except_BadZipFile_def write_and_return_def write_bytes_def)
  have "parse_playscore_to_score sample_env sample_fs ''x.playscore'' =
      except_BadZipFile None
        (parse_via_tempfile sample_env sample_fs ''<score-partwise/>'' ''.musicxml'')"
    using classification_priority [OF sample_xml_open, THEN conjunct2, THEN conjunct1] m
    by (simp add: sample_xml_classify)
  then have b: "fst (parse_playscore_to_score sample_env sample_fs ''x.playscore'') =
     Inr (Some (Score [Part ''piano'']))"
    by (simp add: parse_via_tempfile_def named_temporary_file_def m21_parse_def
        except_BadZipFile_def Let_def sample_env_def sample_parse_def)
  from a b show ?thesis by simp
qed

section \<open>Pass-through of an embedded MusicXML document\<close>




section \<open>The overwrite check of a single conversion\<close>

lemma unlink_quietly_cases:
  "unlink_quietly E fs p = fs \<or> unlink_quietly E fs p = fs(p := None)"
  by (simp add: unlink_quietly_def unlink_def)

lemma convert_success:
  assumes "convert_mid_to_musicxml E fs midb out = (Inr True, fs')"
  shows "\<exists>xb. fs' = unlink_quietly E ((fs(mktemp E fs ''.mid'' \<mapsto> File midb))(out \<mapsto> File xb))
           (mktemp E fs ''.mid'')"
  using assms
  by (auto simp: convert_mid_to_musicxml_def named_temporary_file_def Let_def m21_write_def
      write_bytes_def split: if_splits sum.splits prod.splits option.splits)

lemma except_BadZipFile_zero:
  "except_BadZipFile (2::int) r = (Inr 0, fs') \<Longrightarrow> r = (Inr 0, fs')"
  by (auto simp: except_BadZipFile_def split: prod.splits sum.splits exn.splits)

lemma success_post:
  assumes ok: "process_single_file E fs inp out False = (Inr 0, fs')"
    and fresh: "mktemp E fs ''.mid'' \<notin> dom fs" "mktemp E fs ''.mid'' \<noteq> out"
  shows "isfile fs' inp \<and> exists fs' out"
proof -
  have inp: "isfile fs inp"
    using ok by (auto simp: process_single_file_def split: if_splits)
  show ?thesis
  proof (cases "exists fs out")
    case True
    with ok inp show ?thesis by (simp add: process_single_file_def)
  next
    case False
    then have ne: "out \<noteq> inp" using inp by (auto simp: exists_def isfile_def)
    have tf: "mktemp E fs ''.mid'' \<noteq> inp"
      using fresh(1) inp by (auto simp: isfile_def split: option.splits)
    from ok inp False obtain z where z: "zip_open E fs inp = Inr z"
      and r: "single_archive E fs z out = (Inr 0, fs')"
      by (auto simp: process_single_file_def split: sum.splits
          dest!: except_BadZipFile_zero)
    show ?thesis
    proof (cases "classify_spec E z")
      case (DirectMusicXML b)
      with r have "fs' = fs(out \<mapsto> File b)"
        by (auto simp: single_archive_classify write_and_return_def write_bytes_def
            split: if_splits)
      with inp ne show ?thesis by (simp add: isfile_def exists_def)
    next
      case (MidiPayload midb)
      with r have "convert_mid_to_musicxml E fs midb out = (Inr True, fs')"
        by (auto simp: single_archive_classify split: prod.splits sum.splits if_splits)
      then obtain xb where
        "fs' = unlink_quietly E ((fs(mktemp E fs ''.mid'' \<mapsto> File midb))(out \<mapsto> File xb))
           (mktemp E fs ''.mid'')"
        using convert_success by blast
      then show ?thesis
        using unlink_quietly_cases [of E "(fs(mktemp E fs ''.mid'' \<mapsto> File midb))(out \<mapsto> File xb)"
            "mktemp E fs ''.mid''"] inp ne tf fresh(2)
        by (auto simp: isfile_def exists_def)
    next
      case Unrecognized
      with r show ?thesis by (simp add: single_archive_classify)
    qed
  qed
qed

text \<open>
  C4, as amended. The input check comes before the overwrite check: with overwrite false,
  a call whose input is a file and whose output path exists returns 0 and writes nothing,
  and a call whose input is not a file returns 2 and writes nothing, whether the output
  exists or not. Hence, after a call that returned 0, the same call again returns 0 and
  leaves the file system, the output of the first call included, as it is (the name of
  the temporary MIDI file being new and not the output path).
\<close>

theorem overwrite_noop:
  "(isfile fs inp \<and> exists fs out \<longrightarrow> process_single_file E fs inp out False = (Inr 0, fs)) \<and>
   (\<not> isfile fs inp \<longrightarrow> process_single_file E fs inp out False = (Inr 2, fs)) \<and>
   (process_single_file E fs inp out False = (Inr 0, fs') \<and>
    mktemp E fs ''.mid'' \<notin> dom fs \<and> mktemp E fs ''.mid'' \<noteq> out \<longrightarrow>
      process_single_file E fs' inp out False = (Inr 0, fs'))"
proof (intro conjI impI)
  assume "isfile fs inp \<and> exists fs out"
  then show "process_single_file E fs inp out False = (Inr 0, fs)"
    by (simp add: process_single_file_def)
next
  assume "\<not> isfile fs inp"
  then show "process_single_file E fs inp out False = (Inr 2, fs)"
    by (simp add: process_single_file_def)
next
  assume "process_single_file E fs inp out False = (Inr 0, fs') \<and>
    mktemp E fs ''.mid'' \<notin> dom fs \<and> mktemp E fs ''.mid'' \<noteq> out"
  then have "isfile fs' inp \<and> exists fs' out"
    using success_post by blast
  then show "process_single_file E fs' inp out False = (Inr 0, fs')"
    by (simp add: process_single_file_def)
qed

text \<open>
  C4 as stated fails: the output exists, overwrite is false, and the call returns 2, not
  success, because the input is missing.
\<close>

theorem overwrite_noop_counterexample:
  "exists sample_fs ''old.musicxml'' \<and>
   process_single_file sample_env sample_fs ''missing.playscore'' ''old.musicxml'' False =
     (Inr 2, sample_fs)"
  by (simp add: process_single_file_def exists_def isfile_def sample_fs_def)

lemma sample_midi_convert:
  "fst (process_single_file sample_env sample_fs ''a.playscore'' ''a.musicxml'' False) = Inr 0"
  by (simp add: code_defs sample_defs Let_def)

theorem overwrite_noop_witness:
  "isfile sample_fs ''a.playscore'' \<and> exists sample_fs ''old.musicxml'' \<and>
   process_single_file sample_env sample_fs ''a.playscore'' ''old.musicxml'' False =
     (Inr 0, sample_fs) \<and>
   process_single_file sample_env sample_fs ''missing.playscore'' ''new.musicxml'' False =
     (Inr 2, sample_fs) \<and>
   fst (process_single_file sample_env sample_fs ''a.playscore'' ''a.musicxml'' False) = Inr 0 \<and>
   process_single_file sample_env
     (snd (process_single_file sample_env sample_fs ''a.playscore'' ''a.musicxml'' False))
     ''a.playscore'' ''a.musicxml'' False =
     (Inr 0, snd (process_single_file sample_env sample_fs ''a.playscore'' ''a.musicxml'' False))"
proof -
  have 1: "isfile sample_fs ''a.playscore'' \<and> exists sample_fs ''old.musicxml''"
    by (simp add: isfile_def exists_def sample_fs_def)
  have 2: "process_single_file sample_env sample_fs ''a.playscore'' ''a.musicxml'' False =
     (Inr 0, snd (process_single_file sample_env sample_fs ''a.playscore'' ''a.musicxml'' False))"
    using sample_midi_convert by (simp add: prod_eq_iff)
  have 3: "mktemp sample_env sample_fs ''.mid'' \<notin> dom sample_fs \<and>
     mktemp sample_env sample_fs ''.mid'' \<noteq> ''a.musicxml''"
    by (simp add: sample_env_def sample_fs_def)
  have 4: "\<not> isfile sample_fs ''missing.playscore''"
    by (simp add: isfile_def sample_fs_def)
  show ?thesis
    using 1 2 3 4 sample_midi_convert
      overwrite_noop [of sample_fs "''a.playscore''" "''old.musicxml''" sample_env]
      overwrite_noop [of sample_fs "''a.playscore''" "''a.musicxml''" sample_env
        "snd (process_single_file sample_env sample_fs ''a.playscore'' ''a.musicxml'' False)"]
      overwrite_noop [of sample_fs "''missing.playscore''" "''new.musicxml''" sample_env,
        THEN conjunct2, THEN conjunct1]
    by blast
qed

section \<open>Return codes\<close>

text \<open>
  C7 as stated fails: a missing input and a corrupt archive both give 2, and a missing
  music21 and a failed MIDI conversion both give 3.
\<close>

theorem return_codes_counterexample:
  "fst (process_single_file sample_env sample_fs ''missing.playscore'' ''o.musicxml'' False) = Inr 2 \<and>
   fst (process_single_file sample_env sample_fs ''b.playscore'' ''o.musicxml'' False) = Inr 2 \<and>
   fst (process_single_file (sample_env\<lparr>music21_installed := False\<rparr>) sample_fs
          ''a.playscore'' ''o.musicxml'' False) = Inr 3 \<and>
   fst (process_single_file sample_env sample_fs ''bad.playscore'' ''o.musicxml'' False) = Inr 3"
  by (simp add: code_defs sample_defs Let_def)

lemma convert_without_music21:
  "\<not> music21_installed E \<Longrightarrow> convert_mid_to_musicxml E fs midb out = (Inr False, fs)"
  by (simp add: convert_mid_to_musicxml_def)

text \<open>The temporary MIDI file was created and written.\<close>

lemma temporary_file_written:
  "\<not> tmp_create_refused E fs suffix \<Longrightarrow> tmp_write_error E (mktemp E fs suffix) b = None \<Longrightarrow>
   named_temporary_file E fs suffix b =
     (Inr (mktemp E fs suffix), fs(mktemp E fs suffix \<mapsto> File b))"
  by (simp add: named_temporary_file_def)

lemma convert_parse_raises:
  "music21_installed E \<Longrightarrow> \<not> tmp_create_refused E fs ''.mid'' \<Longrightarrow>
   tmp_write_error E (mktemp E fs ''.mid'') midb = None \<Longrightarrow>
   converter_parse E (mktemp E fs ''.mid'') midb = Inl e \<Longrightarrow>
   fst (convert_mid_to_musicxml E fs midb out) = Inr False"
  by (simp add: convert_mid_to_musicxml_def temporary_file_written m21_parse_def)

lemma convert_write_raises:
  "music21_installed E \<Longrightarrow> \<not> tmp_create_refused E fs ''.mid'' \<Longrightarrow>
   tmp_write_error E (mktemp E fs ''.mid'') midb = None \<Longrightarrow>
   converter_parse E (mktemp E fs ''.mid'') midb = Inr score \<Longrightarrow>
   musicxml_of E score = Inl e \<Longrightarrow>
   fst (convert_mid_to_musicxml E fs midb out) = Inr False"
  by (simp add: convert_mid_to_musicxml_def temporary_file_written m21_parse_def m21_write_def)

lemma single_open:
  "\<not> (exists fs out \<and> \<not> ow) \<Longrightarrow> zip_open E fs inp = Inr z \<Longrightarrow>
   process_single_file E fs inp out ow = except_BadZipFile 2 (single_archive E fs z out)"
  using zip_open_isfile [of E fs inp z] by (auto simp: process_single_file_def)

text \<open>
  C7, as amended. The failure kinds come back as return codes, several kinds to a code.
  \<^verbatim>\<open>process_single_file\<close> returns 2 for an input that is not a file and also for an input
  that is not a ZIP archive; it returns 3 for a MIDI payload when music21 is missing and
  also when music21 fails to parse the payload or to write the score (the temporary MIDI
  file having been written); it returns 4 for an archive without a usable payload. \<^verbatim>\<open>merge_files\<close> returns 3 when music21 is missing. Kinds with different
  codes (2, 3, 4) are told apart.
\<close>

theorem return_codes_by_kind:
  "(\<not> isfile fs inp \<longrightarrow> process_single_file E fs inp out ow = (Inr 2, fs)) \<and>
   (isfile fs inp \<and> \<not> (exists fs out \<and> \<not> ow) \<and> zip_open E fs inp = Inl BadZipFile \<longrightarrow>
      process_single_file E fs inp out ow = (Inr 2, fs)) \<and>
   (\<not> (exists fs out \<and> \<not> ow) \<and> zip_open E fs inp = Inr z \<and>
    classify_spec E z = MidiPayload midb \<and> \<not> music21_installed E \<longrightarrow>
      process_single_file E fs inp out ow = (Inr 3, fs)) \<and>
   (\<not> (exists fs out \<and> \<not> ow) \<and> zip_open E fs inp = Inr z \<and>
    classify_spec E z = MidiPayload midb \<and> music21_installed E \<and>
    \<not> tmp_create_refused E fs ''.mid'' \<and> tmp_write_error E (mktemp E fs ''.mid'') midb = None \<and>
    converter_parse E (mktemp E fs ''.mid'') midb = Inl e \<longrightarrow>
      fst (process_single_file E fs inp out ow) = Inr 3) \<and>
   (\<not> (exists fs out \<and> \<not> ow) \<and> zip_open E fs inp = Inr z \<and>
    classify_spec E z = Unrecognized \<longrightarrow>
      process_single_file E fs inp out ow = (Inr 4, fs)) \<and>
   (\<not> (exists fs out \<and> \<not> ow) \<and> \<not> music21_installed E \<longrightarrow>
      merge_files E fs inputs out ow = (Inr 3, fs)) \<and>
   (\<not> (exists fs out \<and> \<not> ow) \<and> zip_open E fs inp = Inr z \<and>
    classify_spec E z = MidiPayload midb \<and> music21_installed E \<and>
    \<not> tmp_create_refused E fs ''.mid'' \<and> tmp_write_error E (mktemp E fs ''.mid'') midb = None \<and>
    converter_parse E (mktemp E fs ''.mid'') midb = Inr score \<and>
    musicxml_of E score = Inl e' \<longrightarrow>
      fst (process_single_file E fs inp out ow) = Inr 3)"
proof (intro conjI impI)
  assume "\<not> isfile fs inp"
  then show "process_single_file E fs inp out ow = (Inr 2, fs)"
    by (simp add: process_single_file_def)
next
  assume "isfile fs inp \<and> \<not> (exists fs out \<and> \<not> ow) \<and> zip_open E fs inp = Inl BadZipFile"
  then show "process_single_file E fs inp out ow = (Inr 2, fs)"
    by (auto simp: process_single_file_def except_BadZipFile_def)
next
  assume "\<not> (exists fs out \<and> \<not> ow) \<and> zip_open E fs inp = Inr z \<and>
    classify_spec E z = MidiPayload midb \<and> \<not> music21_installed E"
  then show "process_single_file E fs inp out ow = (Inr 3, fs)"
    by (simp add: single_open single_archive_classify convert_without_music21
        except_BadZipFile_def)
next
  assume a: "\<not> (exists fs out \<and> \<not> ow) \<and> zip_open E fs inp = Inr z \<and>
    classify_spec E z = MidiPayload midb \<and> music21_installed E \<and>
    \<not> tmp_create_refused E fs ''.mid'' \<and> tmp_write_error E (mktemp E fs ''.mid'') midb = None \<and>
    converter_parse E (mktemp E fs ''.mid'') midb = Inl e"
  then have "fst (convert_mid_to_musicxml E fs midb out) = Inr False"
    by (simp add: convert_parse_raises)
  then obtain fs' where "convert_mid_to_musicxml E fs midb out = (Inr False, fs')"
    by (cases "convert_mid_to_musicxml E fs midb out") simp
  with a show "fst (process_single_file E fs inp out ow) = Inr 3"
    by (simp add: single_open single_archive_classify except_BadZipFile_def)
next
  assume "\<not> (exists fs out \<and> \<not> ow) \<and> zip_open E fs inp = Inr z \<and>
    classify_spec E z = Unrecognized"
  then show "process_single_file E fs inp out ow = (Inr 4, fs)"
    by (simp add: single_open single_archive_classify except_BadZipFile_def)
next
  assume "\<not> (exists fs out \<and> \<not> ow) \<and> \<not> music21_installed E"
  then show "merge_files E fs inputs out ow = (Inr 3, fs)"
    by (auto simp: merge_files_def)
next
  assume a: "\<not> (exists fs out \<and> \<not> ow) \<and> zip_open E fs inp = Inr z \<and>
    classify_spec E z = MidiPayload midb \<and> music21_installed E \<and>
    \<not> tmp_create_refused E fs ''.mid'' \<and> tmp_write_error E (mktemp E fs ''.mid'') midb = None \<and>
    converter_parse E (mktemp E fs ''.mid'') midb = Inr score \<and>
    musicxml_of E score = Inl e'"
  then have "fst (convert_mid_to_musicxml E fs midb out) = Inr False"
    by (simp add: convert_write_raises)
  then obtain fs' where "convert_mid_to_musicxml E fs midb out = (Inr False, fs')"
    by (cases "convert_mid_to_musicxml E fs midb out") simp
  with a show "fst (process_single_file E fs inp out ow) = Inr 3"
    by (simp add: single_open single_archive_classify except_BadZipFile_def)
qed

theorem return_codes_by_kind_witness:
  "process_single_file sample_env sample_fs ''missing.playscore'' ''o.musicxml'' False =
     (Inr 2, sample_fs) \<and>
   process_single_file sample_env sample_fs ''b.playscore'' ''o.musicxml'' False =
     (Inr 2, sample_fs) \<and>
   process_single_file (sample_env\<lparr>music21_installed := False\<rparr>) sample_fs
     ''a.playscore'' ''o.musicxml'' False = (Inr 3, sample_fs) \<and>
   fst (process_single_file sample_env sample_fs ''bad.playscore'' ''o.musicxml'' False) = Inr 3 \<and>
   process_single_file sample_env sample_fs ''n.playscore'' ''o.musicxml'' False =
     (Inr 4, sample_fs) \<and>
   merge_files (sample_env\<lparr>music21_installed := False\<rparr>) sample_fs [''a.playscore'']
     ''o.musicxml'' False = (Inr 3, sample_fs) \<and>
   fst (process_single_file (sample_env\<lparr>musicxml_of := \<lambda>s. Inl Music21Error\<rparr>) sample_fs
     ''a.playscore'' ''o.musicxml'' False) = Inr 3"
proof -
  have out: "\<not> (exists sample_fs ''o.musicxml'' \<and> \<not> False)"
    by (simp add: exists_def sample_fs_def)
  have 1: "\<not> isfile sample_fs ''missing.playscore''"
    by (simp add: isfile_def sample_fs_def)
  have 2: "isfile sample_fs ''b.playscore'' \<and>
      zip_open sample_env sample_fs ''b.playscore'' = Inl BadZipFile"
    by (simp add: isfile_def zip_open_def sample_defs)
  have 3: "zip_open (sample_env\<lparr>music21_installed := False\<rparr>) sample_fs ''a.playscore'' =
      Inr [(''doc.mid'', ''MThd two'')] \<and>
    classify_spec (sample_env\<lparr>music21_installed := False\<rparr>) [(''doc.mid'', ''MThd two'')] =
      MidiPayload ''MThd two'' \<and>
    \<not> music21_installed (sample_env\<lparr>music21_installed := False\<rparr>)"
    by (simp add: zip_open_def sample_defs spec_defs namelist_def zread_def)
  have 4: "zip_open sample_env sample_fs ''bad.playscore'' = Inr [(''doc.mid'', ''garbage'')] \<and>
    classify_spec sample_env [(''doc.mid'', ''garbage'')] = MidiPayload ''garbage'' \<and>
    music21_installed sample_env \<and>
    \<not> tmp_create_refused sample_env sample_fs ''.mid'' \<and>
    tmp_write_error sample_env (mktemp sample_env sample_fs ''.mid'') ''garbage'' = None \<and>
    converter_parse sample_env (mktemp sample_env sample_fs ''.mid'') ''garbage'' =
      Inl Music21Error"
    by (simp add: zip_open_def sample_defs spec_defs namelist_def zread_def)
  let ?W = "sample_env\<lparr>musicxml_of := \<lambda>s. Inl Music21Error\<rparr>"
  have 6: "zip_open ?W sample_fs ''a.playscore'' = Inr [(''doc.mid'', ''MThd two'')] \<and>
    classify_spec ?W [(''doc.mid'', ''MThd two'')] = MidiPayload ''MThd two'' \<and>
    music21_installed ?W \<and>
    \<not> tmp_create_refused ?W sample_fs ''.mid'' \<and>
    tmp_write_error ?W (mktemp ?W sample_fs ''.mid'') ''MThd two'' = None \<and>
    converter_parse ?W (mktemp ?W sample_fs ''.mid'') ''MThd two'' =
      Inr (Score [Part ''violin'', Part ''cello'']) \<and>
    musicxml_of ?W (Score [Part ''violin'', Part ''cello'']) = Inl Music21Error"
    by (simp add: zip_open_def sample_defs spec_defs namelist_def zread_def)
  have 5: "zip_open sample_env sample_fs ''n.playscore'' = Inr [(''readme.txt'', ''hello'')] \<and>
    classify_spec sample_env [(''readme.txt'', ''hello'')] = Unrecognized"
    by (simp add: zip_open_def sample_defs spec_defs namelist_def zread_def endswith_def
        lower_def lower_char_def)
  have a: "process_single_file sample_env sample_fs ''missing.playscore'' ''o.musicxml'' False =
      (Inr 2, sample_fs)"
    using 1 return_codes_by_kind [where fs = sample_fs and inp = "''missing.playscore''"
        and E = sample_env and out = "''o.musicxml''" and ow = False, THEN conjunct1]
    by blast
  have b: "process_single_file sample_env sample_fs ''b.playscore'' ''o.musicxml'' False =
      (Inr 2, sample_fs)"
    using out 2 return_codes_by_kind [where fs = sample_fs and inp = "''b.playscore''"
        and E = sample_env and out = "''o.musicxml''" and ow = False,
        THEN conjunct2, THEN conjunct1]
    by blast
  have c: "process_single_file (sample_env\<lparr>music21_installed := False\<rparr>) sample_fs
      ''a.playscore'' ''o.musicxml'' False = (Inr 3, sample_fs)"
    using out 3 return_codes_by_kind [where fs = sample_fs and inp = "''a.playscore''"
        and E = "sample_env\<lparr>music21_installed := False\<rparr>" and out = "''o.musicxml''"
        and ow = False and z = "[(''doc.mid'', ''MThd two'')]" and midb = "''MThd two''",
        THEN conjunct2, THEN conjunct2, THEN conjunct1]
    by blast
  have d: "fst (process_single_file sample_env sample_fs ''bad.playscore'' ''o.musicxml'' False) =
      Inr 3"
    using out 4 return_codes_by_kind [where fs = sample_fs and inp = "''bad.playscore''"
        and E = sample_env and out = "''o.musicxml''" and ow = False
        and z = "[(''doc.mid'', ''garbage'')]" and midb = "''garbage''" and e = Music21Error,
        THEN conjunct2, THEN conjunct2, THEN conjunct2, THEN conjunct1]
    by blast
  have e: "process_single_file sample_env sample_fs ''n.playscore'' ''o.musicxml'' False =
      (Inr 4, sample_fs)"
    using out 5 return_codes_by_kind [where fs = sample_fs and inp = "''n.playscore''"
        and E = sample_env and out = "''o.musicxml''" and ow = False
        and z = "[(''readme.txt'', ''hello'')]",
        THEN conjunct2, THEN conjunct2, THEN conjunct2, THEN conjunct2, THEN conjunct1]
    by blast
  have f: "merge_files (sample_env\<lparr>music21_installed := False\<rparr>) sample_fs [''a.playscore'']
      ''o.musicxml'' False = (Inr 3, sample_fs)"
    using out 3 return_codes_by_kind [where fs = sample_fs
        and E = "sample_env\<lparr>music21_installed := False\<rparr>" and out = "''o.musicxml''"
        and ow = False and inputs = "[''a.playscore'']",
        THEN conjunct2, THEN conjunct2, THEN conjunct2, THEN conjunct2, THEN conjunct2,
        THEN conjunct1]
    by blast
  have g: "fst (process_single_file ?W sample_fs ''a.playscore'' ''o.musicxml'' False) = Inr 3"
    using out 6 return_codes_by_kind [where fs = sample_fs and inp = "''a.playscore''"
        and E = ?W and out = "''o.musicxml''" and ow = False
        and z = "[(''doc.mid'', ''MThd two'')]" and midb = "''MThd two''"
        and score = "Score [Part ''violin'', Part ''cello'']" and e' = Music21Error,
        THEN conjunct2, THEN conjunct2, THEN conjunct2, THEN conjunct2, THEN conjunct2,
        THEN conjunct2]
    by blast
  from a b c d e f g show ?thesis by simp
qed

section \<open>A merge with nothing to merge\<close>

lemma parse_inputs_none:
  "none_resolve E fs inputs \<Longrightarrow> \<exists>fs'. parse_inputs E fs inputs acc = (Inr acc, fs')"
proof (induction inputs arbitrary: fs)
  case Nil
  then show ?case by simp
next
  case (Cons f rest)
  then show ?case
    by (auto split: prod.splits sum.splits option.splits)
qed

lemma unusable_parse:
  "music21_installed E \<Longrightarrow> unusable E fs f \<Longrightarrow>
   parse_playscore_to_score E fs f = (Inr None, fs)"
  by (auto simp: unusable_def parse_playscore_to_score_def parse_archive_classify
      except_BadZipFile_def split: sum.splits)

lemma parse_inputs_unusable:
  "music21_installed E \<Longrightarrow> \<forall>f\<in>set inputs. unusable E fs f \<Longrightarrow>
   parse_inputs E fs inputs acc = (Inr acc, fs)"
  by (induction inputs) (simp_all add: unusable_parse)

text \<open>
  C6, as amended. In a call of \<^verbatim>\<open>merge_files\<close> that the overwrite check does not end and
  that finds music21: when every input in turn makes \<^verbatim>\<open>parse_playscore_to_score\<close> return
  \<open>None\<close>, the call returns 4; when every input is a corrupt ZIP file or an archive
  without a usable payload, it returns 4 and leaves the file system unchanged; and when
  some input parsed and writing the combined score raises, it returns 5, a code other
  than 4.
\<close>

theorem merge_nothing_parsable:
  assumes "\<not> (exists fs out \<and> \<not> ow)" and "music21_installed E"
  shows "(none_resolve E fs inputs \<longrightarrow> fst (merge_files E fs inputs out ow) = Inr 4) \<and>
         ((\<forall>f\<in>set inputs. unusable E fs f) \<longrightarrow> merge_files E fs inputs out ow = (Inr 4, fs)) \<and>
         (\<forall>ps fs1 e fs2.
            parse_inputs E fs inputs [] = (Inr ps, fs1) \<and> ps \<noteq> [] \<and>
            m21_write E fs1 (fst (combine ps (Score [], 0))) out = (Inl e, fs2) \<longrightarrow>
              merge_files E fs inputs out ow = (Inr 5, fs2))"
proof (intro conjI impI allI)
  assume "none_resolve E fs inputs"
  then obtain fs' where "parse_inputs E fs inputs [] = (Inr [], fs')"
    using parse_inputs_none by blast
  with assms show "fst (merge_files E fs inputs out ow) = Inr 4"
    by (auto simp: merge_files_def)
next
  assume "\<forall>f\<in>set inputs. unusable E fs f"
  then have "parse_inputs E fs inputs [] = (Inr [], fs)"
    using assms(2) by (simp add: parse_inputs_unusable)
  with assms show "merge_files E fs inputs out ow = (Inr 4, fs)"
    by (auto simp: merge_files_def)
next
  fix ps fs1 e fs2
  assume "parse_inputs E fs inputs [] = (Inr ps, fs1) \<and> ps \<noteq> [] \<and>
            m21_write E fs1 (fst (combine ps (Score [], 0))) out = (Inl e, fs2)"
  with assms show "merge_files E fs inputs out ow = (Inr 5, fs2)"
    by (auto simp: merge_files_def)
qed

text \<open>
  C6 as stated fails twice: no input resolves, and the call returns 0 because the output
  exists and overwrite is false, or 3 because music21 is missing.
\<close>

theorem merge_nothing_parsable_counterexample:
  "exists sample_fs ''old.musicxml'' \<and>
   fst (parse_playscore_to_score sample_env sample_fs ''b.playscore'') = Inr None \<and>
   merge_files sample_env sample_fs [''b.playscore''] ''old.musicxml'' False = (Inr 0, sample_fs) \<and>
   fst (parse_playscore_to_score (sample_env\<lparr>music21_installed := False\<rparr>) sample_fs
          ''b.playscore'') = Inr None \<and>
   merge_files (sample_env\<lparr>music21_installed := False\<rparr>) sample_fs [''b.playscore'']
     ''m.musicxml'' False = (Inr 3, sample_fs)"
  by (simp add: merge_files_def parse_defs code_defs sample_defs)

lemma sample_two_parsed:
  "fst (parse_inputs (sample_env\<lparr>musicxml_of := \<lambda>s. Inl Music21Error\<rparr>) sample_fs
        [''a.playscore''] []) = Inr [(''a.playscore'', Score [Part ''violin'', Part ''cello''])]"
  by (simp add: parse_defs code_defs sample_defs spec_defs split: prod.splits)

theorem merge_nothing_parsable_witness:
  "merge_files sample_env sample_fs [''b.playscore'', ''n.playscore''] ''m.musicxml'' False =
     (Inr 4, sample_fs) \<and>
   fst (merge_files sample_env sample_fs [''b.playscore'', ''n.playscore''] ''m.musicxml'' True) =
     Inr 4 \<and>
   fst (merge_files (sample_env\<lparr>musicxml_of := \<lambda>s. Inl Music21Error\<rparr>) sample_fs
     [''a.playscore''] ''m.musicxml'' False) = Inr 5"
proof -
  let ?E = "sample_env\<lparr>musicxml_of := \<lambda>s. Inl Music21Error\<rparr>"
  let ?ps = "[(''a.playscore'', Score [Part ''violin'', Part ''cello''])]"
  let ?fs1 = "snd (parse_inputs ?E sample_fs [''a.playscore''] [])"
  have g: "\<not> (exists sample_fs ''m.musicxml'' \<and> \<not> False)"
    "\<not> (exists sample_fs ''m.musicxml'' \<and> \<not> True)"
    by (simp_all add: exists_def sample_fs_def)
  have m: "music21_installed sample_env" "music21_installed ?E"
    by (simp_all add: sample_env_def)
  have u: "\<forall>f\<in>set [''b.playscore'', ''n.playscore'']. unusable sample_env sample_fs f"
    by (simp add: unusable_def zip_open_def sample_defs spec_defs namelist_def zread_def
        endswith_def lower_def lower_char_def)
  have n: "none_resolve sample_env sample_fs [''b.playscore'', ''n.playscore'']"
    using u m(1) by (simp add: unusable_parse)
  have p: "parse_inputs ?E sample_fs [''a.playscore''] [] = (Inr ?ps, ?fs1) \<and> ?ps \<noteq> [] \<and>
      m21_write ?E ?fs1 (fst (combine ?ps (Score [], 0))) ''m.musicxml'' = (Inl Music21Error, ?fs1)"
    using sample_two_parsed by (simp add: prod_eq_iff m21_write_def)
  have a: "merge_files sample_env sample_fs [''b.playscore'', ''n.playscore''] ''m.musicxml'' False =
     (Inr 4, sample_fs)"
    using u merge_nothing_parsable [OF g(1) m(1), THEN conjunct2, THEN conjunct1] by blast
  have b: "fst (merge_files sample_env sample_fs [''b.playscore'', ''n.playscore''] ''m.musicxml''
      True) = Inr 4"
    using n merge_nothing_parsable [OF g(2) m(1), THEN conjunct1] by blast
  have c: "merge_files ?E sample_fs [''a.playscore''] ''m.musicxml'' False = (Inr 5, ?fs1)"
    using p merge_nothing_parsable [OF g(1) m(2), THEN conjunct2, THEN conjunct2] by blast
  from a b c show ?thesis by simp
qed

section \<open>Temporary files\<close>

lemma unlink_new_file:
  "fs p = None \<Longrightarrow> \<not> unlink_refused E p \<Longrightarrow> unlink_quietly E (fs(p \<mapsto> File b)) p = fs"
  by (auto simp: unlink_quietly_def unlink_def isfile_def)

lemma except_BadZipFile_snd: "snd (except_BadZipFile v r) = snd r"
  by (auto simp: except_BadZipFile_def split: prod.splits sum.splits exn.splits)

lemma named_temporary_file_cases:
  assumes "scratch_ok E fs out suffix"
  shows "named_temporary_file E fs suffix b = (Inl OSError, fs) \<or>
         named_temporary_file E fs suffix b =
           (Inr (mktemp E fs suffix), fs(mktemp E fs suffix \<mapsto> File b))"
  using assms by (simp add: named_temporary_file_def scratch_ok_def)

lemma parse_via_tempfile_snd:
  assumes "scratch_ok E fs out suffix"
  shows "snd (parse_via_tempfile E fs b suffix) = fs"
proof -
  have tf: "fs (mktemp E fs suffix) = None" "\<not> unlink_refused E (mktemp E fs suffix)"
    using assms by (auto simp: scratch_ok_def)
  show ?thesis
    using named_temporary_file_cases [OF assms, of b] tf
    by (auto simp: parse_via_tempfile_def unlink_new_file split: sum.splits)
qed

lemma parse_playscore_snd:
  assumes "scratch_ok E fs out ''.mid''" and "scratch_ok E fs out ''.musicxml''"
  shows "snd (parse_playscore_to_score E fs f) = fs"
proof (cases "music21_installed E")
  case False
  then show ?thesis by (simp add: parse_playscore_to_score_def)
next
  case True
  show ?thesis
  proof (cases "zip_open E fs f")
    case (Inl e)
    with True show ?thesis
      by (simp add: parse_playscore_to_score_def except_BadZipFile_snd)
  next
    case (Inr z)
    have "snd (parse_archive E fs z) = fs"
      using assms
      by (cases "classify_spec E z")
        (simp_all add: parse_archive_classify parse_via_tempfile_snd)
    with True Inr show ?thesis
      by (simp add: parse_playscore_to_score_def except_BadZipFile_snd)
  qed
qed

lemma parse_inputs_snd:
  assumes "scratch_ok E fs out ''.mid''" and "scratch_ok E fs out ''.musicxml''"
  shows "snd (parse_inputs E fs inputs acc) = fs"
proof (induction inputs arbitrary: acc)
  case Nil
  then show ?case by simp
next
  case (Cons f rest)
  obtain r where r: "parse_playscore_to_score E fs f = (r, fs)"
    using parse_playscore_snd [OF assms, of f]
    by (cases "parse_playscore_to_score E fs f") simp
  show ?case
    using r Cons by (simp split: sum.splits option.splits)
qed

lemma write_bytes_frame: "p \<noteq> out \<Longrightarrow> snd (write_bytes E fs out b) p = fs p"
  by (simp add: write_bytes_def)

lemma m21_write_frame: "p \<noteq> out \<Longrightarrow> snd (m21_write E fs s out) p = fs p"
  by (simp add: m21_write_def write_bytes_frame split: sum.splits)

lemma convert_frame:
  assumes "scratch_ok E fs out ''.mid''" and "p \<noteq> out"
  shows "snd (convert_mid_to_musicxml E fs midb out) p = fs p"
proof (cases "music21_installed E")
  case False
  then show ?thesis by (simp add: convert_mid_to_musicxml_def)
next
  case True
  let ?tf = "mktemp E fs ''.mid''"
  let ?fs1 = "fs(?tf \<mapsto> File midb)"
  have tf: "fs ?tf = None" "?tf \<noteq> out" "\<not> unlink_refused E ?tf"
    using assms(1) by (auto simp: scratch_ok_def)
  have u: "\<And>fs2. isfile fs2 ?tf \<Longrightarrow> unlink_quietly E fs2 ?tf = fs2(?tf := None)"
    using tf(3) by (simp add: unlink_quietly_def unlink_def)
  from named_temporary_file_cases [OF assms(1), of midb] show ?thesis
  proof
    assume "named_temporary_file E fs ''.mid'' midb = (Inl OSError, fs)"
    with True show ?thesis by (simp add: convert_mid_to_musicxml_def)
  next
    assume n: "named_temporary_file E fs ''.mid'' midb = (Inr ?tf, ?fs1)"
    show ?thesis
    proof (cases "m21_parse E ?fs1 ?tf")
      case (Inl e)
      with True n tf show ?thesis
        by (simp add: convert_mid_to_musicxml_def unlink_new_file)
    next
      case (Inr score)
      obtain r fs2 where w: "m21_write E ?fs1 score out = (r, fs2)"
        by (cases "m21_write E ?fs1 score out") auto
      have fr: "\<And>q. q \<noteq> out \<Longrightarrow> fs2 q = ?fs1 q"
        using m21_write_frame [of _ out E ?fs1 score] w by simp
      then have "isfile fs2 ?tf" using tf(2) by (simp add: isfile_def)
      then have "unlink_quietly E fs2 ?tf = fs2(?tf := None)" by (rule u)
      then have "snd (convert_mid_to_musicxml E fs midb out) = fs2(?tf := None)"
        using True n Inr w by (cases r) (simp_all add: convert_mid_to_musicxml_def)
      then show ?thesis
        using fr [of p] assms(2) tf(1) by simp
    qed
  qed
qed

lemma single_archive_frame:
  assumes "scratch_ok E fs out ''.mid''" and "p \<noteq> out"
  shows "snd (single_archive E fs z out) p = fs p"
proof (cases "classify_spec E z")
  case (DirectMusicXML b)
  obtain r fs' where w: "write_bytes E fs out b = (r, fs')"
    by (cases "write_bytes E fs out b") auto
  then have "fs' p = fs p"
    using write_bytes_frame [OF assms(2), of E fs b] by simp
  then show ?thesis
    using w DirectMusicXML
    by (cases r) (simp_all add: single_archive_classify write_and_return_def)
next
  case (MidiPayload midb)
  obtain r fs' where c: "convert_mid_to_musicxml E fs midb out = (r, fs')"
    by (cases "convert_mid_to_musicxml E fs midb out") auto
  then have "fs' p = fs p"
    using convert_frame [OF assms, of midb] by simp
  then show ?thesis
    using c MidiPayload by (cases r) (simp_all add: single_archive_classify)
next
  case Unrecognized
  then show ?thesis by (simp add: single_archive_classify)
qed

lemma process_single_file_frame:
  assumes "scratch_ok E fs out ''.mid''" and "p \<noteq> out"
  shows "snd (process_single_file E fs inp out ow) p = fs p"
  using single_archive_frame [OF assms]
  by (simp add: process_single_file_def except_BadZipFile_snd split: sum.splits)

lemma merge_files_frame:
  assumes "scratch_ok E fs out ''.mid''" and "scratch_ok E fs out ''.musicxml''" and "p \<noteq> out"
  shows "snd (merge_files E fs inputs out ow) p = fs p"
proof -
  obtain r where r: "parse_inputs E fs inputs [] = (r, fs)"
    using parse_inputs_snd [OF assms(1,2), of inputs "[]"]
    by (cases "parse_inputs E fs inputs []") simp
  show ?thesis
  proof (cases r)
    case (Inl e)
    with r show ?thesis by (simp add: merge_files_def)
  next
    case (Inr ps)
    obtain w fs2 where w: "m21_write E fs (fst (combine ps (Score [], 0))) out = (w, fs2)"
      by (cases "m21_write E fs (fst (combine ps (Score [], 0))) out") auto
    then have "fs2 p = fs p"
      using m21_write_frame [OF assms(3), of E fs "fst (combine ps (Score [], 0))"] by simp
    then show ?thesis
      using r Inr w by (cases w) (simp_all add: merge_files_def)
  qed
qed

text \<open>
  C9, as amended. When the temporary files behave (their names are new and are not the
  output path, writing to them does not fail, and the system does not refuse to remove
  them), then after \<^verbatim>\<open>process_single_file\<close> and after \<^verbatim>\<open>merge_files\<close>, whether they
  returned a code or raised, every path but the output path holds what it held before: no
  temporary file is left, and \<^verbatim>\<open>parse_playscore_to_score\<close> leaves the file system as it
  found it. The removal itself is \<^verbatim>\<open>try: os.unlink(...) except Exception: pass\<close>, so when
  the system refuses it the file stays and the call goes on; and the temporary file is
  written before \<^verbatim>\<open>try\<close> is entered, so a write that fails is outside the clean-up.
\<close>

theorem scratch_files_removed:
  assumes "scratch_ok E fs out ''.mid''" and "scratch_ok E fs out ''.musicxml''"
  shows "(\<forall>p. p \<noteq> out \<longrightarrow> snd (process_single_file E fs inp out ow) p = fs p) \<and>
         (\<forall>p. p \<noteq> out \<longrightarrow> snd (merge_files E fs inputs out ow) p = fs p) \<and>
         snd (process_single_file E fs inp out ow) (mktemp E fs ''.mid'') = None \<and>
         snd (merge_files E fs inputs out ow) (mktemp E fs ''.mid'') = None \<and>
         snd (merge_files E fs inputs out ow) (mktemp E fs ''.musicxml'') = None \<and>
         snd (parse_playscore_to_score E fs inp) = fs"
proof -
  have tf: "fs (mktemp E fs ''.mid'') = None" "mktemp E fs ''.mid'' \<noteq> out"
    "fs (mktemp E fs ''.musicxml'') = None" "mktemp E fs ''.musicxml'' \<noteq> out"
    using assms by (auto simp: scratch_ok_def)
  show ?thesis
    using tf process_single_file_frame [OF assms(1)] merge_files_frame [OF assms]
      parse_playscore_snd [OF assms]
    by simp
qed

text \<open>
  C9 as stated fails, in two ways. The system refuses to remove the temporary file: the
  refusal is swallowed, the call still returns 0, and the file is left behind. Or writing
  the temporary file fails: the call ends with the exception before it reaches
  \<^verbatim>\<open>try ... finally\<close>, and the file, created with \<^verbatim>\<open>delete=False\<close>, is left behind.
\<close>

theorem scratch_files_removed_counterexample:
  "sample_fs ''/tmp/tmp0.mid'' = None \<and>
   fst (process_single_file (sample_env\<lparr>unlink_refused := \<lambda>p. True\<rparr>) sample_fs
          ''a.playscore'' ''a.musicxml'' False) = Inr 0 \<and>
   snd (process_single_file (sample_env\<lparr>unlink_refused := \<lambda>p. True\<rparr>) sample_fs
          ''a.playscore'' ''a.musicxml'' False) ''/tmp/tmp0.mid'' = Some (File ''MThd two'') \<and>
   snd (merge_files (sample_env\<lparr>unlink_refused := \<lambda>p. True\<rparr>) sample_fs
          [''a.playscore''] ''m.musicxml'' False) ''/tmp/tmp0.mid'' = Some (File ''MThd two'') \<and>
   fst (process_single_file (sample_env\<lparr>tmp_write_error := \<lambda>p b. Some []\<rparr>) sample_fs
          ''a.playscore'' ''a.musicxml'' False) = Inl OSError \<and>
   snd (process_single_file (sample_env\<lparr>tmp_write_error := \<lambda>p b. Some []\<rparr>) sample_fs
          ''a.playscore'' ''a.musicxml'' False) ''/tmp/tmp0.mid'' = Some (File []) \<and>
   fst (merge_files (sample_env\<lparr>tmp_write_error := \<lambda>p b. Some []\<rparr>) sample_fs
          [''a.playscore''] ''m.musicxml'' False) = Inl OSError \<and>
   snd (merge_files (sample_env\<lparr>tmp_write_error := \<lambda>p b. Some []\<rparr>) sample_fs
          [''a.playscore''] ''m.musicxml'' False) ''/tmp/tmp0.mid'' = Some (File [])"
  by (simp add: merge_files_def parse_defs code_defs sample_defs Let_def)

theorem scratch_files_removed_witness:
  "scratch_ok sample_env sample_fs ''m.musicxml'' ''.mid'' \<and>
   scratch_ok sample_env sample_fs ''m.musicxml'' ''.musicxml'' \<and>
   snd (process_single_file sample_env sample_fs ''a.playscore'' ''m.musicxml'' False)
     ''/tmp/tmp0.mid'' = None \<and>
   snd (merge_files sample_env sample_fs [''a.playscore'', ''bad.playscore''] ''m.musicxml'' False)
     ''/tmp/tmp0.mid'' = None \<and>
   snd (merge_files sample_env sample_fs [''x.playscore'', ''a.playscore''] ''m.musicxml'' False)
     ''/tmp/tmp0.musicxml'' = None \<and>
   snd (parse_playscore_to_score sample_env sample_fs ''bad.playscore'') = sample_fs"
proof -
  have h: "scratch_ok sample_env sample_fs ''m.musicxml'' ''.mid''"
    "scratch_ok sample_env sample_fs ''m.musicxml'' ''.musicxml''"
    by (simp_all add: scratch_ok_def sample_env_def sample_fs_def)
  have n: "mktemp sample_env sample_fs ''.mid'' = ''/tmp/tmp0.mid''"
    "mktemp sample_env sample_fs ''.musicxml'' = ''/tmp/tmp0.musicxml''"
    by (simp_all add: sample_env_def)
  have a: "snd (process_single_file sample_env sample_fs ''a.playscore'' ''m.musicxml'' False)
     ''/tmp/tmp0.mid'' = None"
    using scratch_files_removed [OF h, where inp = "''a.playscore''" and ow = False,
        THEN conjunct2, THEN conjunct2, THEN conjunct1]
    by (simp add: n)
  have b: "snd (merge_files sample_env sample_fs [''a.playscore'', ''bad.playscore'']
     ''m.musicxml'' False) ''/tmp/tmp0.mid'' = None"
    using scratch_files_removed [OF h, where inputs = "[''a.playscore'', ''bad.playscore'']"
        and ow = False, THEN conjunct2, THEN conjunct2, THEN conjunct2, THEN conjunct1]
    by (simp add: n)
  have c: "snd (merge_files sample_env sample_fs [''x.playscore'', ''a.playscore'']
     ''m.musicxml'' False) ''/tmp/tmp0.musicxml'' = None"
    using scratch_files_removed [OF h, where inputs = "[''x.playscore'', ''a.playscore'']"
        and ow = False, THEN conjunct2, THEN conjunct2, THEN conjunct2, THEN conjunct2,
        THEN conjunct1]
    by (simp add: n)
  have d: "snd (parse_playscore_to_score sample_env sample_fs ''bad.playscore'') = sample_fs"
    using scratch_files_removed [OF h, where inp = "''bad.playscore''",
        THEN conjunct2, THEN conjunct2, THEN conjunct2, THEN conjunct2, THEN conjunct2]
    by simp
  from h a b c d show ?thesis by simp
qed

section \<open>The exit status of a batch\<close>

lemma single_loop_codes:
  "single_loop E fs output ow n files ec0 = (Inr ec, fs') \<Longrightarrow>
   ec = (case filter (\<lambda>rc. rc \<noteq> 0) (return_codes E fs output ow n files) of
           [] \<Rightarrow> ec0
         | r # rs \<Rightarrow> last (r # rs)) \<and>
   length (return_codes E fs output ow n files) = length files"
proof (induction files arbitrary: fs ec0)
  case Nil
  then show ?case by simp
next
  case (Cons f rest)
  obtain r fs1 where p: "process_single_file E fs f (out_for E output n f) ow = (r, fs1)"
    by (cases "process_single_file E fs f (out_for E output n f) ow") auto
  show ?case
  proof (cases r)
    case (Inl e)
    with p Cons.prems show ?thesis by simp
  next
    case (Inr rc)
    with p Cons.prems have
      "single_loop E fs1 output ow n rest (if rc \<noteq> 0 then rc else ec0) = (Inr ec, fs')"
      by simp
    from Cons.IH [OF this] p Inr show ?thesis
      by (auto split: list.splits)
  qed
qed

lemma last_failure_zero: "last_failure rcs = 0 \<longleftrightarrow> (\<forall>rc\<in>set rcs. rc = 0)"
proof (cases "filter (\<lambda>rc. rc \<noteq> 0) rcs")
  case Nil
  then show ?thesis by (simp add: last_failure_def filter_empty_conv)
next
  case (Cons r rs)
  then have "last (r # rs) \<in> set (filter (\<lambda>rc. rc \<noteq> 0) rcs)"
    using last_in_set [of "r # rs"] by simp
  then have "last (r # rs) \<in> set rcs \<and> last (r # rs) \<noteq> 0" by simp
  with Cons show ?thesis by (auto simp: last_failure_def)
qed

text \<open>
  C8, as amended. When the batch of single conversions runs to its end, every input was
  processed, the exit status is zero exactly when every input returned zero, and otherwise
  it is the return code of the last input that failed: each failure overwrites the status
  of the failures before it.
\<close>

theorem batch_exit_status:
  assumes "main_single E fs output ow files = (Inr ec, fs')"
  shows "ec = last_failure (return_codes E fs output ow (length files) files) \<and>
         length (return_codes E fs output ow (length files) files) = length files \<and>
         (ec = 0 \<longleftrightarrow> (\<forall>rc\<in>set (return_codes E fs output ow (length files) files). rc = 0))"
proof -
  from assms have
    "single_loop E fs output ow (length files) files 0 = (Inr ec, fs')"
    by (simp add: main_single_def)
  from single_loop_codes [OF this]
  have e: "ec = last_failure (return_codes E fs output ow (length files) files)"
    and l: "length (return_codes E fs output ow (length files) files) = length files"
    by (simp_all add: last_failure_def split: list.splits)
  from e l show ?thesis
    using last_failure_zero [of "return_codes E fs output ow (length files) files"] by simp
qed

lemma sample_batch:
  "main_single sample_env sample_fs None False [''n.playscore'', ''b.playscore''] =
     (Inr 2, sample_fs)"
  "main_single sample_env sample_fs None False [''b.playscore'', ''n.playscore''] =
     (Inr 4, sample_fs)"
  by (simp_all add: main_single_def out_for_def code_defs sample_defs)

lemma sample_batch_codes:
  "return_codes sample_env sample_fs None False 2 [''n.playscore'', ''b.playscore''] = [4, 2]"
  "return_codes sample_env sample_fs None False 2 [''b.playscore'', ''n.playscore''] = [2, 4]"
  by (simp_all add: out_for_def code_defs sample_defs)

text \<open>
  C8 as stated fails: the same two inputs, one without a payload (4) and one that is no
  ZIP file (2), give the exit status 2 in one order and 4 in the other. The status is
  that of the input processed last among the failing ones, not the worst of the two.
\<close>

theorem batch_exit_status_counterexample:
  "return_codes sample_env sample_fs None False 2 [''n.playscore'', ''b.playscore''] = [4, 2] \<and>
   main_single sample_env sample_fs None False [''n.playscore'', ''b.playscore''] =
     (Inr 2, sample_fs) \<and>
   return_codes sample_env sample_fs None False 2 [''b.playscore'', ''n.playscore''] = [2, 4] \<and>
   main_single sample_env sample_fs None False [''b.playscore'', ''n.playscore''] =
     (Inr 4, sample_fs)"
  using sample_batch sample_batch_codes by simp

theorem batch_exit_status_witness:
  "main_single sample_env sample_fs None False [''n.playscore'', ''b.playscore''] =
     (Inr 2, sample_fs) \<and>
   2 = last_failure (return_codes sample_env sample_fs None False
     (length [''n.playscore'', ''b.playscore'']) [''n.playscore'', ''b.playscore''])"
  using sample_batch(1) batch_exit_status [OF sample_batch(1), THEN conjunct1]
  by (rule conjI)

section \<open>The order of the merged parts\<close>

text \<open>
  The two loops of the merge. The second loop appends to the combined score, for each
  parsed source in order, its declared parts in their order, or the source itself when it
  declares none, and counts what it appends.
\<close>

lemma append_parts_spec:
  "append_parts ps (Score els, n) = (Score (els @ ps), n + length ps)"
  by (induction ps arbitrary: els n) simp_all

lemma declared_parts: "\<not> has_parts s \<Longrightarrow> parts s = []"
  by (cases s) auto

lemma combine_spec:
  "combine parsed (Score els, n) =
     (Score (els @ concat (map (contribution \<circ> snd) parsed)),
      n + length (concat (map (contribution \<circ> snd) parsed)))"
proof (induction parsed arbitrary: els n)
  case Nil
  then show ?case by simp
next
  case (Cons a parsed)
  obtain fname s where a: "a = (fname, s)" by (cases a)
  show ?case
    using Cons a declared_parts [of s]
    by (auto simp: append_parts_spec contribution_def)
qed

lemma part_count_sum:
  "length (concat (map (contribution \<circ> snd) parsed)) =
     sum_list (map (\<lambda>(f, s). if parts s = [] then 1 else length (parts s)) parsed)"
  by (induction parsed) (auto simp: contribution_def)

text \<open>
  When no input makes \<^verbatim>\<open>parse_playscore_to_score\<close> raise (and the temporary files behave),
  the first loop keeps exactly the inputs that resolve, in input order, and the merge
  writes the score made of their contributions, in that order, nothing reordered and
  nothing dropped; inputs that return \<open>None\<close> are passed over.
\<close>

lemma parse_inputs_resolved:
  assumes "scratch_ok E fs out ''.mid''" and "scratch_ok E fs out ''.musicxml''"
  shows "\<forall>f\<in>set inputs. \<not> raises E fs f \<Longrightarrow>
         parse_inputs E fs inputs acc = (Inr (acc @ resolved E fs inputs), fs)"
proof (induction inputs arbitrary: acc)
  case Nil
  then show ?case by (simp add: resolved_def)
next
  case (Cons f rest)
  obtain r where r: "parse_playscore_to_score E fs f = (r, fs)"
    using parse_playscore_snd [OF assms, of f]
    by (cases "parse_playscore_to_score E fs f") simp
  from Cons.prems have nr: "\<not> raises E fs f" and rest: "\<forall>f\<in>set rest. \<not> raises E fs f"
    by simp_all
  have tail: "resolved E fs (f # rest) =
      (case r of Inr (Some s) \<Rightarrow> [(f, s)] | Inr None \<Rightarrow> [] | Inl e \<Rightarrow> []) @ resolved E fs rest"
    using r by (simp add: resolved_def)
  show ?case
  proof (cases r)
    case (Inl e)
    with r nr show ?thesis by (simp add: raises_def)
  next
    case (Inr v)
    then show ?thesis
      using r tail Cons.IH [OF rest] by (cases v) simp_all
  qed
qed

lemma merge_files_order:
  assumes "\<not> (exists fs out \<and> \<not> ow)" and "music21_installed E"
    and "scratch_ok E fs out ''.mid''" and "scratch_ok E fs out ''.musicxml''"
    and "\<forall>f\<in>set inputs. \<not> raises E fs f"
  shows "merge_files E fs inputs out ow =
     (if resolved E fs inputs = [] then (Inr 4, fs)
      else
        (case m21_write E fs
                (Score (concat (map (contribution \<circ> snd) (resolved E fs inputs)))) out of
           (Inl e, fs') \<Rightarrow> (Inr 5, fs')
         | (Inr u, fs') \<Rightarrow> (Inr 0, fs')))"
  using assms(1,2) parse_inputs_resolved [OF assms(3,4,5), of "[]"]
  by (auto simp: merge_files_def combine_spec)

text \<open>
  C2. The combined score is to hold, in input order, the parts of every source that
  parsed, and a source that fails to resolve is to be skipped without aborting the merge.
  On the code a source whose payload music21 cannot parse is not skipped: \<^verbatim>\<open>converter.parse\<close>
  raises inside \<^verbatim>\<open>try ... finally\<close> with no \<^verbatim>\<open>except\<close>, the exception leaves
  \<^verbatim>\<open>parse_playscore_to_score\<close> and then \<^verbatim>\<open>merge_files\<close>, and nothing is written. With the
  sample inputs A (two parts), an archive with an unparsable \<^verbatim>\<open>doc.mid\<close>, and C (no declared
  parts) the merge raises; with a corrupt ZIP file in the middle instead, it writes the
  three parts in order.
\<close>

theorem merge_aborts_when_parse_raises:
  "fst (parse_playscore_to_score sample_env sample_fs ''bad.playscore'') = Inl Music21Error \<and>
   fst (merge_files sample_env sample_fs
          [''a.playscore'', ''bad.playscore'', ''c.playscore''] ''m.musicxml'' False) =
     Inl Music21Error \<and>
   snd (merge_files sample_env sample_fs
          [''a.playscore'', ''bad.playscore'', ''c.playscore''] ''m.musicxml'' False)
     ''m.musicxml'' = None \<and>
   fst (merge_files sample_env sample_fs
          [''a.playscore'', ''b.playscore'', ''c.playscore''] ''m.musicxml'' False) = Inr 0 \<and>
   snd (merge_files sample_env sample_fs
          [''a.playscore'', ''b.playscore'', ''c.playscore''] ''m.musicxml'' False)
     ''m.musicxml'' =
     Some (File ''<score><part>violin</part><part>cello</part><stream>melody</stream></score>'')"
  by (simp add: merge_files_def parse_defs code_defs sample_defs Let_def)

end
